theory Spec2Isabelle
  imports Main "HOL-Library.AList"
begin

text \<open>
  A shallow embedding of the stock-status inference engine of the restock backend:
  the markup classifier of \<^verbatim>\<open>src/src/stock-checker.ts\<close> (the current class and the
  older copy kept in the same file), the response parsers and the response cache of
  \<^verbatim>\<open>src/src/ai-vision-service.ts\<close>.  What the code takes from the JavaScript
  runtime (string methods, regular expressions, \<^verbatim>\<open>JSON.parse\<close>) is modelled first.

  Text is a list of code units.  The model covers the code units below 256
  (ISO 8859-1): case mapping, white space and word characters are those of
  ECMAScript on that range.  Every \<^verbatim>\<open>throw\<close> is a value \<^term>\<open>Inl e\<close>.
\<close>

section \<open>JavaScript strings\<close>

text \<open>
  The values a \<^verbatim>\<open>throw\<close> can carry here.  \<open>Error\<close> is raised by the code itself,
  with the message of the source; \<open>SyntaxError\<close> and \<open>TypeError\<close> are raised by the
  runtime (\<^verbatim>\<open>new RegExp\<close>, \<^verbatim>\<open>JSON.parse\<close>, a property read on
  \<^verbatim>\<open>undefined\<close>), and their message stands for the engine's own wording.
  \<open>Unmodelled\<close> marks pattern syntax that the pattern parser below does not cover.
\<close>

datatype error = Error string | SyntaxError string | TypeError string | Unmodelled string

text \<open>
  \<^verbatim>\<open>String.prototype.toLowerCase\<close> on one code unit, and the case folding of a
  regular expression with the \<^verbatim>\<open>i\<close> flag and without the \<^verbatim>\<open>u\<close> flag (the
  upper-case form, where that is one code unit of the range).
\<close>

definition toLowerCase_char :: "char \<Rightarrow> char" where
  "toLowerCase_char c =
     (let n = (of_char c :: nat) in
      if (65 \<le> n \<and> n \<le> 90) \<or> (192 \<le> n \<and> n \<le> 214) \<or> (216 \<le> n \<and> n \<le> 222)
      then char_of (n + 32) else c)"

definition canonicalize :: "char \<Rightarrow> char" where
  "canonicalize c =
     (let n = (of_char c :: nat) in
      if (97 \<le> n \<and> n \<le> 122) \<or> (224 \<le> n \<and> n \<le> 246) \<or> (248 \<le> n \<and> n \<le> 254)
      then char_of (n - 32) else c)"

definition toLowerCase :: "string \<Rightarrow> string" where
  "toLowerCase s = map toLowerCase_char s"

text \<open>
  Line terminators, white space (\<^verbatim>\<open>\s\<close> and \<^verbatim>\<open>trim\<close>), digits (\<^verbatim>\<open>\d\<close>) and
  word characters (\<^verbatim>\<open>\w\<close>, \<^verbatim>\<open>\b\<close>).
\<close>

definition is_line_terminator :: "char \<Rightarrow> bool" where
  "is_line_terminator c = ((of_char c :: nat) \<in> {10, 13})"

definition is_space :: "char \<Rightarrow> bool" where
  "is_space c = ((of_char c :: nat) \<in> {9, 10, 11, 12, 13, 32, 160})"

definition is_digit :: "char \<Rightarrow> bool" where
  "is_digit c = (let n = (of_char c :: nat) in 48 \<le> n \<and> n \<le> 57)"

definition is_word :: "char \<Rightarrow> bool" where
  "is_word c =
     (let n = (of_char c :: nat) in
      (48 \<le> n \<and> n \<le> 57) \<or> (65 \<le> n \<and> n \<le> 90) \<or> n = 95 \<or> (97 \<le> n \<and> n \<le> 122))"

text \<open>
  \<^verbatim>\<open>includes\<close>, \<^verbatim>\<open>indexOf\<close> (\<open>-1\<close> when the text does not occur),
  \<^verbatim>\<open>substring\<close> (both indices clamped to the length, and swapped when the first is
  the larger) and \<^verbatim>\<open>trim\<close>.
\<close>

fun startsWith :: "string \<Rightarrow> string \<Rightarrow> bool" where
  "startsWith s [] = True"
| "startsWith [] (p # ps) = False"
| "startsWith (c # cs) (p # ps) = (c = p \<and> startsWith cs ps)"

fun includes_str :: "string \<Rightarrow> string \<Rightarrow> bool" where
  "includes_str [] sub = (sub = [])"
| "includes_str (c # cs) sub = (startsWith (c # cs) sub \<or> includes_str cs sub)"

fun indexOf_from :: "nat \<Rightarrow> string \<Rightarrow> string \<Rightarrow> int" where
  "indexOf_from i [] sub = (if sub = [] then int i else - 1)"
| "indexOf_from i (c # cs) sub =
     (if startsWith (c # cs) sub then int i else indexOf_from (Suc i) cs sub)"

definition indexOf :: "string \<Rightarrow> string \<Rightarrow> int" where
  "indexOf s sub = indexOf_from 0 s sub"

definition substring :: "string \<Rightarrow> int \<Rightarrow> int \<Rightarrow> string" where
  "substring s start stop =
     (let len = int (length s);
          a = min (max start 0) len;
          b = min (max stop 0) len;
          from = min a b;
          to = max a b
      in take (nat (to - from)) (drop (nat from) s))"

definition trim :: "string \<Rightarrow> string" where
  "trim s = rev (dropWhile is_space (rev (dropWhile is_space s)))"

section \<open>Regular expressions\<close>

text \<open>
  A pattern is a tree.  \<open>run\<close> lists the states in which a pattern can end when it is
  started in a given state, in the order in which the backtracking matcher of ECMAScript
  tries them.  A state is the index into the input, the code unit in front of it (for
  \<^verbatim>\<open>\b\<close>), the rest of the input and the capture groups closed so far, the latest
  first.  A repetition goes on only while an iteration consumes input, as the matcher's
  empty check has it.  A capture group inside a repetition keeps the text of its last
  iteration; none of the patterns here reads such a group.
\<close>

datatype citem =
    CChar char | CRange char char
  | CDigit | CNotDigit | CWord | CNotWord | CSpace | CNotSpace

datatype regex =
    Empty
  | Dot
  | CharSet bool "citem list"
  | Seq regex regex
  | Alt regex regex
  | Star bool regex
  | Plus bool regex
  | Opt bool regex
  | Group nat regex
  | WordB | NotWordB | LineStart | LineEnd

record flags =
  ignoreCase :: bool
  multiline :: bool

fun item_match :: "bool \<Rightarrow> citem \<Rightarrow> char \<Rightarrow> bool" where
  "item_match ci (CChar x) c = (if ci then canonicalize x = canonicalize c else x = c)"
| "item_match ci (CRange a b) c =
     (if ci
      then list_ex (\<lambda>v. (of_char a :: nat) \<le> of_char v \<and> (of_char v :: nat) \<le> of_char b)
             [c, toLowerCase_char c, canonicalize c]
      else (of_char a :: nat) \<le> of_char c \<and> (of_char c :: nat) \<le> of_char b)"
| "item_match ci CDigit c = is_digit c"
| "item_match ci CNotDigit c = (\<not> is_digit c)"
| "item_match ci CWord c = is_word c"
| "item_match ci CNotWord c = (\<not> is_word c)"
| "item_match ci CSpace c = is_space c"
| "item_match ci CNotSpace c = (\<not> is_space c)"

definition set_match :: "bool \<Rightarrow> bool \<Rightarrow> citem list \<Rightarrow> char \<Rightarrow> bool" where
  "set_match ci neg items c = (neg \<noteq> list_ex (\<lambda>it. item_match ci it c) items)"

type_synonym mstate = "nat \<times> char option \<times> string \<times> (nat \<times> nat \<times> nat) list"

definition rest_of :: "mstate \<Rightarrow> string" where
  "rest_of st = fst (snd (snd st))"

definition word_before :: "char option \<Rightarrow> bool" where
  "word_before p = (case p of None \<Rightarrow> False | Some c \<Rightarrow> is_word c)"

definition word_after :: "string \<Rightarrow> bool" where
  "word_after s = (case s of [] \<Rightarrow> False | c # t \<Rightarrow> is_word c)"

function star_run :: "bool \<Rightarrow> (mstate \<Rightarrow> mstate list) \<Rightarrow> mstate \<Rightarrow> mstate list" where
  "star_run greedy step st =
     (let more = concat (map (star_run greedy step)
                   (filter (\<lambda>st'. length (rest_of st') < length (rest_of st)) (step st)))
      in if greedy then more @ [st] else st # more)"
  by pat_completeness auto
termination
  by (relation "measure (\<lambda>(g, step, st). length (rest_of st))") auto

declare star_run.simps [simp del]

fun run :: "flags \<Rightarrow> regex \<Rightarrow> mstate \<Rightarrow> mstate list" where
  "run fl Empty st = [st]"
| "run fl Dot (i, p, s, caps) =
     (case s of [] \<Rightarrow> []
      | c # t \<Rightarrow> if is_line_terminator c then [] else [(Suc i, Some c, t, caps)])"
| "run fl (CharSet neg items) (i, p, s, caps) =
     (case s of [] \<Rightarrow> []
      | c # t \<Rightarrow> if set_match (ignoreCase fl) neg items c then [(Suc i, Some c, t, caps)] else [])"
| "run fl (Seq a b) st = concat (map (run fl b) (run fl a st))"
| "run fl (Alt a b) st = run fl a st @ run fl b st"
| "run fl (Star g a) st = star_run g (\<lambda>st'. run fl a st') st"
| "run fl (Plus g a) st = concat (map (star_run g (\<lambda>st'. run fl a st')) (run fl a st))"
| "run fl (Opt g a) st = (if g then run fl a st @ [st] else st # run fl a st)"
| "run fl (Group n a) (i, p, s, caps) =
     map (\<lambda>(j, q, t, ds). (j, q, t, (n, i, j) # ds)) (run fl a (i, p, s, caps))"
| "run fl WordB (i, p, s, caps) =
     (if word_before p \<noteq> word_after s then [(i, p, s, caps)] else [])"
| "run fl NotWordB (i, p, s, caps) =
     (if word_before p = word_after s then [(i, p, s, caps)] else [])"
| "run fl LineStart (i, p, s, caps) =
     (if p = None \<or> (multiline fl \<and> (case p of None \<Rightarrow> False | Some c \<Rightarrow> is_line_terminator c))
      then [(i, p, s, caps)] else [])"
| "run fl LineEnd (i, p, s, caps) =
     (if s = [] \<or> (multiline fl \<and> (case s of [] \<Rightarrow> False | c # t \<Rightarrow> is_line_terminator c))
      then [(i, p, s, caps)] else [])"

text \<open>
  \<^verbatim>\<open>RegExp.prototype.exec\<close> of a pattern without the \<^verbatim>\<open>g\<close> flag, which is also
  \<^verbatim>\<open>String.prototype.match\<close>: the match at the leftmost index that has one, and there
  the first in the matcher's order.  \<^verbatim>\<open>test\<close> says whether there is one.
\<close>

fun search_from :: "flags \<Rightarrow> regex \<Rightarrow> nat \<Rightarrow> char option \<Rightarrow> string \<Rightarrow> (nat \<times> mstate) option" where
  "search_from fl r i p [] =
     (case run fl r (i, p, [], []) of [] \<Rightarrow> None | m # ms \<Rightarrow> Some (i, m))"
| "search_from fl r i p (c # cs) =
     (case run fl r (i, p, c # cs, []) of
        [] \<Rightarrow> search_from fl r (Suc i) (Some c) cs
      | m # ms \<Rightarrow> Some (i, m))"

record match_result =
  whole :: string
  groups :: "nat \<Rightarrow> string option"

definition exec :: "flags \<Rightarrow> regex \<Rightarrow> string \<Rightarrow> match_result option" where
  "exec fl r s =
     (case search_from fl r 0 None s of
        None \<Rightarrow> None
      | Some (i, (j, p, t, caps)) \<Rightarrow>
          Some \<lparr>whole = take (j - i) (drop i s),
                groups = (\<lambda>n. case map_of caps n of
                                 None \<Rightarrow> None
                               | Some (a, b) \<Rightarrow> Some (take (b - a) (drop a s)))\<rparr>)"

definition test :: "flags \<Rightarrow> regex \<Rightarrow> string \<Rightarrow> bool" where
  "test fl r s = (search_from fl r 0 None s \<noteq> None)"

section \<open>Pattern parser\<close>

text \<open>
  \<^verbatim>\<open>new RegExp(source)\<close> parses its argument; the model reads the source one
  character at a time, with a stack of the groups that are open.  It covers the pattern
  syntax of ECMAScript without the \<^verbatim>\<open>u\<close> flag for literal characters,
  \<^verbatim>\<open>.\<close>, character classes with ranges and class escapes, capturing and
  \<^verbatim>\<open>(?:)\<close> groups, alternatives, the quantifiers \<^verbatim>\<open>* + ?\<close> with their lazy
  forms, \<^verbatim>\<open>^ $ \b \B\<close>, control escapes and escaped punctuation.  What the
  constructor rejects is \<open>Inl (SyntaxError _)\<close>.  Braces, look-around and named groups,
  back references and the escapes of other letters and digits are outside the model:
  in front of them the parser answers \<open>Inl (Unmodelled _)\<close>.
\<close>

datatype qkind = QStar | QPlus | QOpt

datatype pitem = PAtom regex | PAssert regex | PQuant qkind bool regex

datatype raw = RChar char | RDash | RClass citem

datatype pmode =
    Normal | AfterQuant | Escape | GroupStart | GroupQ
  | ClassStart | InClass bool "raw list" | ClassEscape bool "raw list"

type_synonym frame = "nat option \<times> regex list \<times> pitem list"

type_synonym pstate = "pmode \<times> frame list \<times> nat"

fun item_regex :: "pitem \<Rightarrow> regex" where
  "item_regex (PAtom r) = r"
| "item_regex (PAssert r) = r"
| "item_regex (PQuant QStar g r) = Star g r"
| "item_regex (PQuant QPlus g r) = Plus g r"
| "item_regex (PQuant QOpt g r) = Opt g r"

fun seq_of :: "regex list \<Rightarrow> regex" where
  "seq_of [] = Empty"
| "seq_of [r] = r"
| "seq_of (r # rs) = Seq r (seq_of rs)"

fun alt_of :: "regex list \<Rightarrow> regex" where
  "alt_of [] = Empty"
| "alt_of [r] = r"
| "alt_of (r # rs) = Alt r (alt_of rs)"

definition close_alt :: "pitem list \<Rightarrow> regex" where
  "close_alt cur = seq_of (map item_regex (rev cur))"

definition frame_regex :: "frame \<Rightarrow> regex" where
  "frame_regex f =
     (case f of (cap, alts, cur) \<Rightarrow>
        (let r = alt_of (rev (close_alt cur # alts))
         in case cap of None \<Rightarrow> r | Some n \<Rightarrow> Group n r))"

fun push_item :: "pitem \<Rightarrow> frame list \<Rightarrow> frame list" where
  "push_item it [] = []"
| "push_item it ((cap, alts, cur) # fs) = (cap, alts, it # cur) # fs"

fun quantify :: "qkind \<Rightarrow> frame list \<Rightarrow> error + frame list" where
  "quantify k ((cap, alts, PAtom r # cur) # fs) = Inr ((cap, alts, PQuant k True r # cur) # fs)"
| "quantify k fs = Inl (SyntaxError ''Nothing to repeat'')"

fun make_lazy :: "frame list \<Rightarrow> frame list" where
  "make_lazy ((cap, alts, PQuant k g r # cur) # fs) = (cap, alts, PQuant k False r # cur) # fs"
| "make_lazy fs = fs"

fun next_alt :: "frame list \<Rightarrow> frame list" where
  "next_alt [] = []"
| "next_alt ((cap, alts, cur) # fs) = (cap, close_alt cur # alts, []) # fs"

fun close_group :: "frame list \<Rightarrow> error + frame list" where
  "close_group (f # g # fs) = Inr (push_item (PAtom (frame_regex f)) (g # fs))"
| "close_group fs = Inl (SyntaxError ''Unmatched ) in regular expression'')"

definition is_alnum :: "char \<Rightarrow> bool" where
  "is_alnum c = (is_word c \<and> c \<noteq> CHR ''_'')"

text \<open>The class escapes shared by both contexts.\<close>

definition class_escape :: "char \<Rightarrow> citem option" where
  "class_escape c =
     (if c = CHR ''d'' then Some CDigit else if c = CHR ''D'' then Some CNotDigit
      else if c = CHR ''w'' then Some CWord else if c = CHR ''W'' then Some CNotWord
      else if c = CHR ''s'' then Some CSpace else if c = CHR ''S'' then Some CNotSpace
      else None)"

definition control_escape :: "char \<Rightarrow> char option" where
  "control_escape c =
     (if c = CHR ''t'' then Some (CHR 0x09) else if c = CHR ''n'' then Some (CHR 0x0A)
      else if c = CHR ''v'' then Some (CHR 0x0B) else if c = CHR ''f'' then Some (CHR 0x0C)
      else if c = CHR ''r'' then Some (CHR 0x0D) else None)"

definition lit :: "char \<Rightarrow> regex" where
  "lit c = CharSet False [CChar c]"

definition escape_atom :: "char \<Rightarrow> error + pitem" where
  "escape_atom c =
     (case class_escape c of
        Some it \<Rightarrow> Inr (PAtom (CharSet False [it]))
      | None \<Rightarrow>
         (case control_escape c of
            Some x \<Rightarrow> Inr (PAtom (lit x))
          | None \<Rightarrow>
              if c = CHR ''b'' then Inr (PAssert WordB)
              else if c = CHR ''B'' then Inr (PAssert NotWordB)
              else if is_alnum c then Inl (Unmodelled ''escape sequence'')
              else Inr (PAtom (lit c))))"

definition escape_raw :: "char \<Rightarrow> error + raw" where
  "escape_raw c =
     (case class_escape c of
        Some it \<Rightarrow> Inr (RClass it)
      | None \<Rightarrow>
         (case control_escape c of
            Some x \<Rightarrow> Inr (RChar x)
          | None \<Rightarrow>
              if c = CHR ''b'' then Inr (RChar (CHR 0x08))
              else if is_alnum c then Inl (Unmodelled ''escape sequence'')
              else Inr (RChar c)))"

fun raw_char :: "raw \<Rightarrow> char option" where
  "raw_char (RChar c) = Some c"
| "raw_char RDash = Some (CHR ''-'')"
| "raw_char (RClass it) = None"

fun raw_item :: "raw \<Rightarrow> citem" where
  "raw_item (RChar c) = CChar c"
| "raw_item RDash = CChar (CHR ''-'')"
| "raw_item (RClass it) = it"

fun resolve :: "raw list \<Rightarrow> error + citem list" where
  "resolve (a # RDash # b # rest) =
     (case (raw_char a, raw_char b) of
        (Some x, Some y) \<Rightarrow>
          if (of_char y :: nat) < of_char x
          then Inl (SyntaxError ''Range out of order in character class'')
          else (case resolve rest of Inl e \<Rightarrow> Inl e | Inr r \<Rightarrow> Inr (CRange x y # r))
      | _ \<Rightarrow>
          (case resolve (b # rest) of
             Inl e \<Rightarrow> Inl e
           | Inr r \<Rightarrow> Inr (raw_item a # CChar (CHR ''-'') # r)))"
| "resolve (a # rest) = (case resolve rest of Inl e \<Rightarrow> Inl e | Inr r \<Rightarrow> Inr (raw_item a # r))"
| "resolve [] = Inr []"

definition normal_step :: "bool \<Rightarrow> frame list \<Rightarrow> nat \<Rightarrow> char \<Rightarrow> error + pstate" where
  "normal_step after_quant fs n c =
     (if c = CHR 0x5C then Inr (Escape, fs, n)
      else if c = CHR ''['' then Inr (ClassStart, fs, n)
      else if c = CHR ''('' then Inr (GroupStart, fs, n)
      else if c = CHR '')'' then
        (case close_group fs of Inl e \<Rightarrow> Inl e | Inr fs' \<Rightarrow> Inr (Normal, fs', n))
      else if c = CHR ''|'' then Inr (Normal, next_alt fs, n)
      else if c = CHR ''*'' then
        (case quantify QStar fs of Inl e \<Rightarrow> Inl e | Inr fs' \<Rightarrow> Inr (AfterQuant, fs', n))
      else if c = CHR ''+'' then
        (case quantify QPlus fs of Inl e \<Rightarrow> Inl e | Inr fs' \<Rightarrow> Inr (AfterQuant, fs', n))
      else if c = CHR ''?'' then
        (if after_quant then Inr (Normal, make_lazy fs, n)
         else (case quantify QOpt fs of Inl e \<Rightarrow> Inl e | Inr fs' \<Rightarrow> Inr (AfterQuant, fs', n)))
      else if c = CHR ''.'' then Inr (Normal, push_item (PAtom Dot) fs, n)
      else if c = CHR ''^'' then Inr (Normal, push_item (PAssert LineStart) fs, n)
      else if c = CHR ''$'' then Inr (Normal, push_item (PAssert LineEnd) fs, n)
      else if c = CHR ''{'' \<or> c = CHR ''}'' then Inl (Unmodelled ''brace in pattern'')
      else Inr (Normal, push_item (PAtom (lit c)) fs, n))"

fun class_step :: "bool \<Rightarrow> raw list \<Rightarrow> frame list \<Rightarrow> nat \<Rightarrow> char \<Rightarrow> error + pstate" where
  "class_step neg raws fs n c =
     (if c = CHR '']'' then
        (case resolve (rev raws) of
           Inl e \<Rightarrow> Inl e
         | Inr items \<Rightarrow> Inr (Normal, push_item (PAtom (CharSet neg items)) fs, n))
      else if c = CHR 0x5C then Inr (ClassEscape neg raws, fs, n)
      else if c = CHR ''-'' then Inr (InClass neg (RDash # raws), fs, n)
      else Inr (InClass neg (RChar c # raws), fs, n))"

fun pstep :: "pstate \<Rightarrow> char \<Rightarrow> error + pstate" where
  "pstep (Normal, fs, n) c = normal_step False fs n c"
| "pstep (AfterQuant, fs, n) c = normal_step True fs n c"
| "pstep (Escape, fs, n) c =
     (case escape_atom c of Inl e \<Rightarrow> Inl e | Inr it \<Rightarrow> Inr (Normal, push_item it fs, n))"
| "pstep (GroupStart, fs, n) c =
     (if c = CHR ''?'' then Inr (GroupQ, fs, n)
      else normal_step False ((Some (Suc n), [], []) # fs) (Suc n) c)"
| "pstep (GroupQ, fs, n) c =
     (if c = CHR '':'' then Inr (Normal, (None, [], []) # fs, n)
      else Inl (Unmodelled ''group specifier''))"
| "pstep (ClassStart, fs, n) c =
     (if c = CHR ''^'' then Inr (InClass True [], fs, n) else class_step False [] fs n c)"
| "pstep (InClass neg raws, fs, n) c = class_step neg raws fs n c"
| "pstep (ClassEscape neg raws, fs, n) c =
     (case escape_raw c of Inl e \<Rightarrow> Inl e | Inr r \<Rightarrow> Inr (InClass neg (r # raws), fs, n))"

fun pfinish :: "pstate \<Rightarrow> error + regex" where
  "pfinish (Escape, fs, n) = Inl (SyntaxError ''Backslash at end of pattern'')"
| "pfinish (ClassStart, fs, n) = Inl (SyntaxError ''Unterminated character class'')"
| "pfinish (InClass neg raws, fs, n) = Inl (SyntaxError ''Unterminated character class'')"
| "pfinish (ClassEscape neg raws, fs, n) = Inl (SyntaxError ''Backslash at end of pattern'')"
| "pfinish (GroupStart, fs, n) = Inl (SyntaxError ''Unterminated group'')"
| "pfinish (GroupQ, fs, n) = Inl (SyntaxError ''Invalid group'')"
| "pfinish (m, [f], n) = Inr (frame_regex f)"
| "pfinish (m, fs, n) = Inl (SyntaxError ''Unterminated group'')"

fun parse_chars :: "pstate \<Rightarrow> string \<Rightarrow> error + regex" where
  "parse_chars st [] = pfinish st"
| "parse_chars st (c # cs) =
     (case pstep st c of Inl e \<Rightarrow> Inl e | Inr st' \<Rightarrow> parse_chars st' cs)"

definition parse_pattern :: "string \<Rightarrow> error + regex" where
  "parse_pattern src = parse_chars (Normal, [(None, [], [])], 0) src"

section \<open>JSON\<close>

text \<open>
  \<^verbatim>\<open>JSON.parse\<close>: a lexer for the tokens of the JSON grammar and a stack machine
  over the tokens.  A number is kept as its sign, decimal mantissa and decimal exponent
  (the value is mantissa times ten to the exponent).  In an object a later member
  overrides an earlier one of the same name when it is read (\<open>get_prop\<close> below).  An
  escape \<^verbatim>\<open>\uXXXX\<close> above 255 lies outside the text model and is read as the code
  unit \<open>0x1A\<close>; the two such code units that JavaScript lower-cases to an ASCII
  letter (\<^verbatim>\<open>U+0130\<close> to \<open>i\<close> and a combining dot, \<^verbatim>\<open>U+212A\<close> to \<open>k\<close>) are
  therefore not letters here, and the statements below speak of the letters of the text
  model only.  A text that \<^verbatim>\<open>JSON.parse\<close> rejects is \<open>Inl (SyntaxError _)\<close>.
\<close>

datatype json =
    JNull | JBool bool | JNumber bool nat int | JString string
  | JArray "json list" | JObject "(string \<times> json) list"

datatype token =
    TLBrace | TRBrace | TLBrack | TRBrack | TColon | TComma
  | TString string | TNumber bool nat int | TTrue | TFalse | TNull

definition hex_value :: "char \<Rightarrow> nat option" where
  "hex_value c =
     (let n = (of_char c :: nat) in
      if 48 \<le> n \<and> n \<le> 57 then Some (n - 48)
      else if 65 \<le> n \<and> n \<le> 70 then Some (n - 55)
      else if 97 \<le> n \<and> n \<le> 102 then Some (n - 87)
      else None)"

definition code_unit :: "nat \<Rightarrow> char" where
  "code_unit n = (if n < 256 then char_of n else CHR 0x1A)"

definition unicode_escape :: "char \<Rightarrow> char \<Rightarrow> char \<Rightarrow> char \<Rightarrow> char option" where
  "unicode_escape a b c d =
     (case (hex_value a, hex_value b, hex_value c, hex_value d) of
        (Some w, Some x, Some y, Some z) \<Rightarrow> Some (code_unit (((w * 16 + x) * 16 + y) * 16 + z))
      | _ \<Rightarrow> None)"

definition simple_escape :: "char \<Rightarrow> char option" where
  "simple_escape e =
     (if e = CHR 0x22 \<or> e = CHR 0x5C \<or> e = CHR ''/'' then Some e
      else if e = CHR ''b'' then Some (CHR 0x08)
      else if e = CHR ''f'' then Some (CHR 0x0C)
      else if e = CHR ''n'' then Some (CHR 0x0A)
      else if e = CHR ''r'' then Some (CHR 0x0D)
      else if e = CHR ''t'' then Some (CHR 0x09)
      else None)"

fun lex_string :: "string \<Rightarrow> string \<Rightarrow> (string \<times> string) option" where
  "lex_string acc [] = None"
| "lex_string acc (c # cs) =
     (if c = CHR 0x22 then Some (rev acc, cs)
      else if c = CHR 0x5C then
        (case cs of
           [] \<Rightarrow> None
         | e # cs' \<Rightarrow>
             if e = CHR ''u'' then
               (case cs' of
                  h1 # h2 # h3 # h4 # cs'' \<Rightarrow>
                    (case unicode_escape h1 h2 h3 h4 of
                       None \<Rightarrow> None
                     | Some x \<Rightarrow> lex_string (x # acc) cs'')
                | _ \<Rightarrow> None)
             else (case simple_escape e of
                     None \<Rightarrow> None
                   | Some x \<Rightarrow> lex_string (x # acc) cs'))
      else if (of_char c :: nat) < 32 then None
      else lex_string (c # acc) cs)"

definition digits_value :: "string \<Rightarrow> nat" where
  "digits_value ds = foldl (\<lambda>a c. 10 * a + (of_char c - 48)) 0 ds"

definition is_number_char :: "char \<Rightarrow> bool" where
  "is_number_char c =
     (is_digit c \<or> c = CHR ''-'' \<or> c = CHR ''+'' \<or> c = CHR ''.'' \<or> c = CHR ''e'' \<or> c = CHR ''E'')"

definition parse_number :: "string \<Rightarrow> token option" where
  "parse_number s =
     (let neg = (case s of [] \<Rightarrow> False | c # t \<Rightarrow> c = CHR ''-'');
          s1 = (if neg then tl s else s);
          ints = takeWhile is_digit s1;
          s2 = dropWhile is_digit s1;
          has_frac = (case s2 of [] \<Rightarrow> False | c # t \<Rightarrow> c = CHR ''.'');
          fracs = (if has_frac then takeWhile is_digit (tl s2) else []);
          s3 = (if has_frac then dropWhile is_digit (tl s2) else s2);
          has_exp = (case s3 of [] \<Rightarrow> False | c # t \<Rightarrow> c = CHR ''e'' \<or> c = CHR ''E'');
          s4 = (if has_exp then tl s3 else s3);
          exp_neg = (case s4 of [] \<Rightarrow> False | c # t \<Rightarrow> has_exp \<and> c = CHR ''-'');
          exp_sign = (case s4 of [] \<Rightarrow> False
                      | c # t \<Rightarrow> has_exp \<and> (c = CHR ''-'' \<or> c = CHR ''+''));
          s5 = (if exp_sign then tl s4 else s4);
          exps = (if has_exp then takeWhile is_digit s5 else []);
          s6 = (if has_exp then dropWhile is_digit s5 else s5);
          e = int (digits_value exps)
      in if ints = [] \<or> (length ints > 1 \<and> hd ints = CHR ''0'')
            \<or> (has_frac \<and> fracs = []) \<or> (has_exp \<and> exps = []) \<or> s6 \<noteq> []
         then None
         else Some (TNumber neg (digits_value (ints @ fracs))
                      ((if exp_neg then - e else e) - int (length fracs))))"

definition is_json_space :: "char \<Rightarrow> bool" where
  "is_json_space c = ((of_char c :: nat) \<in> {9, 10, 13, 32})"

lemma lex_string_shorter: "lex_string acc s = Some (x, r) \<Longrightarrow> length r < length s"
proof (induction acc s arbitrary: x r rule: lex_string.induct)
  case (1 acc)
  then show ?case by simp
next
  case (2 acc c cs)
  show ?case
  proof (cases "c = CHR 0x22")
    case True
    with "2.prems" show ?thesis by simp
  next
    case nq: False
    show ?thesis
    proof (cases "c = CHR 0x5C")
      case False
      with nq "2.prems" have lo: "\<not> (of_char c :: nat) < 32" and
        rec: "lex_string (c # acc) cs = Some (x, r)"
        by (auto split: if_splits)
      from "2.IH"(3) [OF nq False lo rec] show ?thesis by simp
    next
      case bs: True
      show ?thesis
      proof (cases cs)
        case Nil
        with nq bs "2.prems" show ?thesis by simp
      next
        case (Cons e cs')
        show ?thesis
        proof (cases "e = CHR ''u''")
          case True
          with nq bs Cons "2.prems" obtain h1 h2 h3 h4 cs'' y where
            cs': "cs' = h1 # h2 # h3 # h4 # cs''" and
            u: "unicode_escape h1 h2 h3 h4 = Some y" and
            rec: "lex_string (y # acc) cs'' = Some (x, r)"
            by (auto split: list.splits option.splits)
          from "2.IH"(1) [OF nq bs Cons True cs' refl refl refl u rec] cs' Cons show ?thesis by simp
        next
          case False
          with nq bs Cons "2.prems" obtain y where
            u: "simple_escape e = Some y" and
            rec: "lex_string (y # acc) cs' = Some (x, r)"
            by (auto split: option.splits)
          from "2.IH"(2) [OF nq bs Cons False u rec] Cons show ?thesis by simp
        qed
      qed
    qed
  qed
qed

function tokens :: "string \<Rightarrow> token list option" where
  "tokens [] = Some []"
| "tokens (c # cs) =
     (if is_json_space c then tokens cs
      else if c = CHR ''{'' then map_option (Cons TLBrace) (tokens cs)
      else if c = CHR ''}'' then map_option (Cons TRBrace) (tokens cs)
      else if c = CHR ''['' then map_option (Cons TLBrack) (tokens cs)
      else if c = CHR '']'' then map_option (Cons TRBrack) (tokens cs)
      else if c = CHR '':'' then map_option (Cons TColon) (tokens cs)
      else if c = CHR '','' then map_option (Cons TComma) (tokens cs)
      else if c = CHR 0x22 then
        (case lex_string [] cs of
           None \<Rightarrow> None
         | Some (str, r) \<Rightarrow> map_option (Cons (TString str)) (tokens r))
      else if c = CHR ''-'' \<or> is_digit c then
        (case parse_number (takeWhile is_number_char (c # cs)) of
           None \<Rightarrow> None
         | Some tok \<Rightarrow> map_option (Cons tok) (tokens (dropWhile is_number_char cs)))
      else if startsWith (c # cs) ''true'' then map_option (Cons TTrue) (tokens (drop 3 cs))
      else if startsWith (c # cs) ''false'' then map_option (Cons TFalse) (tokens (drop 4 cs))
      else if startsWith (c # cs) ''null'' then map_option (Cons TNull) (tokens (drop 3 cs))
      else None)"
  by pat_completeness auto
termination
proof (relation "measure length", goal_cases)
  case (9 c cs x2 x y)
  then show ?case
    using lex_string_shorter [of "[]" cs x y] by simp
next
  case (10 c cs x2)
  show ?case
    using length_dropWhile_le [of is_number_char cs] by simp
qed simp_all

datatype jframe = FArray "json list" | FObject "(string \<times> json) list" "string option"

datatype expect =
    ExpValue | ExpValueOrEnd | ExpKeyOrEnd | ExpKey | ExpColon | ExpCommaOrEnd | Done json

type_synonym jstate = "expect \<times> jframe list"

fun deliver :: "json \<Rightarrow> jframe list \<Rightarrow> jstate option" where
  "deliver v [] = Some (Done v, [])"
| "deliver v (FArray els # fs) = Some (ExpCommaOrEnd, FArray (v # els) # fs)"
| "deliver v (FObject kvs (Some k) # fs) = Some (ExpCommaOrEnd, FObject ((k, v) # kvs) None # fs)"
| "deliver v (FObject kvs None # fs) = None"

fun scalar :: "token \<Rightarrow> json option" where
  "scalar (TString s) = Some (JString s)"
| "scalar (TNumber neg m e) = Some (JNumber neg m e)"
| "scalar TTrue = Some (JBool True)"
| "scalar TFalse = Some (JBool False)"
| "scalar TNull = Some JNull"
| "scalar t = None"

definition value_start :: "token \<Rightarrow> jframe list \<Rightarrow> jstate option" where
  "value_start t fs =
     (if t = TLBrace then Some (ExpKeyOrEnd, FObject [] None # fs)
      else if t = TLBrack then Some (ExpValueOrEnd, FArray [] # fs)
      else (case scalar t of None \<Rightarrow> None | Some v \<Rightarrow> deliver v fs))"

fun close_frame :: "token \<Rightarrow> jframe list \<Rightarrow> jstate option" where
  "close_frame TRBrack (FArray els # fs) = deliver (JArray (rev els)) fs"
| "close_frame TRBrace (FObject kvs None # fs) = deliver (JObject (rev kvs)) fs"
| "close_frame t fs = None"

fun key_start :: "token \<Rightarrow> jframe list \<Rightarrow> jstate option" where
  "key_start (TString k) (FObject kvs None # fs) = Some (ExpColon, FObject kvs (Some k) # fs)"
| "key_start t fs = None"

fun after_comma :: "jframe list \<Rightarrow> jstate option" where
  "after_comma (FArray els # fs) = Some (ExpValue, FArray els # fs)"
| "after_comma (FObject kvs None # fs) = Some (ExpKey, FObject kvs None # fs)"
| "after_comma fs = None"

fun jstep :: "jstate \<Rightarrow> token \<Rightarrow> jstate option" where
  "jstep (ExpValue, fs) t = value_start t fs"
| "jstep (ExpValueOrEnd, fs) t = (if t = TRBrack then close_frame t fs else value_start t fs)"
| "jstep (ExpKeyOrEnd, fs) t = (if t = TRBrace then close_frame t fs else key_start t fs)"
| "jstep (ExpKey, fs) t = key_start t fs"
| "jstep (ExpColon, fs) t = (if t = TColon then Some (ExpValue, fs) else None)"
| "jstep (ExpCommaOrEnd, fs) t = (if t = TComma then after_comma fs else close_frame t fs)"
| "jstep (Done v, fs) t = None"

fun jrun :: "jstate \<Rightarrow> token list \<Rightarrow> json option" where
  "jrun (Done v, fs) [] = Some v"
| "jrun st [] = None"
| "jrun st (t # ts) = (case jstep st t of None \<Rightarrow> None | Some st' \<Rightarrow> jrun st' ts)"

definition JSON_parse :: "string \<Rightarrow> error + json" where
  "JSON_parse text =
     (case tokens text of
        None \<Rightarrow> Inl (SyntaxError ''Unexpected token in JSON'')
      | Some ts \<Rightarrow>
          (case jrun (ExpValue, []) ts of
             None \<Rightarrow> Inl (SyntaxError ''Unexpected token in JSON'')
           | Some v \<Rightarrow> Inr v))"


section \<open>The markup classifier\<close>

text \<open>
  \<^verbatim>\<open>src/src/stock-checker.ts\<close>.  The file holds the class twice: the current one
  (lines 1--157, with \<^verbatim>\<open>parseVariantStock\<close>) and an older copy (lines 158--341).
  Both \<^verbatim>\<open>parseStockStatus\<close> functions are modelled; \<^verbatim>\<open>checkStructuredData\<close> is the
  same in both.  Each pattern literal is given as its tree; that the tree is what the
  source text of the literal parses to is proved further down.
\<close>

datatype StockStatus = in_stock | few_left | unavailable

definition dq :: char where "dq = CHR 0x22"
definition sq :: char where "sq = CHR 0x27"
definition bs :: char where "bs = CHR 0x5C"

definition flags_i :: flags where "flags_i = \<lparr>ignoreCase = True, multiline = False\<rparr>"
definition flags_m :: flags where "flags_m = \<lparr>ignoreCase = False, multiline = True\<rparr>"
definition flags_none :: flags where "flags_none = \<lparr>ignoreCase = False, multiline = False\<rparr>"

definition not_char :: "char \<Rightarrow> regex" where
  "not_char c = CharSet True [CChar c]"

definition quote :: regex where
  "quote = CharSet False [CChar dq, CChar sq]"

definition str :: "string \<Rightarrow> regex" where
  "str s = seq_of (map lit s)"

subsection \<open>checkStructuredData\<close>

text \<open>
  Lines 130--156.  \<open>availability_of\<close> is the chain
  \<^verbatim>\<open>data?.offers?.availability?.toLowerCase()\<close>: \<^const>\<open>None\<close> is \<^verbatim>\<open>undefined\<close>,
  and calling \<^verbatim>\<open>toLowerCase\<close> on a value that is not a string is a TypeError, which
  the \<^verbatim>\<open>catch\<close> swallows like a parse error.
\<close>

definition jsonLdPattern :: regex where
  "jsonLdPattern =
     seq_of (map lit ''<script'' @ [Star True (not_char (CHR ''>''))] @ map lit ''type=''
       @ [quote] @ map lit ''application/ld+json''
       @ [quote, Star True (not_char (CHR ''>'')), lit (CHR ''>''),
          Group 1 (Star False (CharSet False [CSpace, CNotSpace]))]
       @ map lit ''</script>'')"

definition jsonLdPattern_source :: string where
  "jsonLdPattern_source =
     ''<script[^>]*type=['' @ [dq, sq] @ '']application'' @ [bs] @ ''/ld'' @ [bs]
       @ ''+json['' @ [dq, sq] @ ''][^>]*>(['' @ [bs] @ ''s'' @ [bs] @ ''S]*?)<''
       @ [bs] @ ''/script>''"

definition get_prop :: "json \<Rightarrow> string \<Rightarrow> json option" where
  "get_prop v k = (case v of JObject kvs \<Rightarrow> map_of (rev kvs) k | _ \<Rightarrow> None)"

definition availability_of :: "json \<Rightarrow> error + string option" where
  "availability_of data =
     (if data = JNull then Inr None
      else case get_prop data ''offers'' of
        None \<Rightarrow> Inr None
      | Some offers \<Rightarrow>
          if offers = JNull then Inr None
          else case get_prop offers ''availability'' of
            None \<Rightarrow> Inr None
          | Some a \<Rightarrow>
              (case a of
                 JNull \<Rightarrow> Inr None
               | JString s \<Rightarrow> Inr (Some (toLowerCase s))
               | _ \<Rightarrow> Inl (TypeError ''availability.toLowerCase is not a function'')))"

definition checkStructuredData :: "string \<Rightarrow> StockStatus option" where
  "checkStructuredData html =
     (case exec flags_i jsonLdPattern html of
        None \<Rightarrow> None
      | Some jsonLdMatch \<Rightarrow>
          (case groups jsonLdMatch 1 of
             None \<Rightarrow> None
           | Some body \<Rightarrow>
               (case JSON_parse body of
                  Inl e \<Rightarrow> None
                | Inr data \<Rightarrow>
                    (case availability_of data of
                       Inl e \<Rightarrow> None
                     | Inr None \<Rightarrow> None
                     | Inr (Some availability) \<Rightarrow>
                         if availability = [] then None
                         else if includes_str availability ''instock''
                               \<or> includes_str availability ''in_stock'' then Some in_stock
                         else if includes_str availability ''outofstock''
                               \<or> includes_str availability ''out_of_stock'' then Some unavailable
                         else if includes_str availability ''limitedavailability'' then Some few_left
                         else None))))"

subsection \<open>parseStockStatus\<close>

text \<open>
  Lines 72--128.  \<open>buttonSection\<close> is the window of lines 94--97, computed from
  \<^verbatim>\<open>indexOf('add to cart')\<close> whichever affordance phrase was found.
\<close>

definition hasAddToCart :: "string \<Rightarrow> bool" where
  "hasAddToCart lowerHtml =
     (includes_str lowerHtml ''add to cart'' \<or>
      includes_str lowerHtml ''add to bag'' \<or>
      includes_str lowerHtml ''add to basket'' \<or>
      includes_str lowerHtml ''buy now'' \<or>
      includes_str lowerHtml ''purchase'')"

definition disabledPattern :: regex where
  "disabledPattern =
     alt_of [str ''disabled'',
             seq_of (map lit ''aria-disabled='' @ [lit dq] @ map lit ''true'' @ [lit dq]),
             seq_of (map lit ''class='' @ [lit dq, Star True (not_char dq)] @ map lit ''disabled''
               @ [Star True (not_char dq), lit dq])]"

definition disabledPattern_source :: string where
  "disabledPattern_source =
     ''disabled|aria-disabled='' @ [dq] @ ''true'' @ [dq] @ ''|class='' @ [dq] @ ''[^'' @ [dq]
       @ '']*disabled[^'' @ [dq] @ '']*'' @ [dq]"

definition buttonSection :: "string \<Rightarrow> string" where
  "buttonSection lowerHtml =
     (let addToCartIndex = indexOf lowerHtml ''add to cart'';
          start = max 0 (addToCartIndex - 1500);
          stop = min (int (length lowerHtml)) (addToCartIndex + 1500)
      in substring lowerHtml start stop)"

definition hasDisabledButton :: "string \<Rightarrow> bool" where
  "hasDisabledButton lowerHtml =
     (if hasAddToCart lowerHtml then test flags_i disabledPattern (buttonSection lowerHtml)
      else False)"

definition outOfStockPattern :: regex where
  "outOfStockPattern =
     seq_of [WordB,
       Group 1 (alt_of [str ''out of stock'', str ''sold out'', str ''currently unavailable'',
                        str ''not available'', str ''unavailable'']),
       WordB]"

definition outOfStockPattern_source :: string where
  "outOfStockPattern_source =
     [bs] @ ''b(out of stock|sold out|currently unavailable|not available|unavailable)''
       @ [bs] @ ''b''"

definition lowStockPattern :: regex where
  "lowStockPattern =
     seq_of [WordB,
       Group 1 (alt_of [str ''low stock'', str ''few left'', str ''limited stock'',
                        seq_of (map lit ''only '' @ [Plus True (CharSet False [CDigit])]
                          @ map lit '' left'')]),
       WordB]"

definition lowStockPattern_source :: string where
  "lowStockPattern_source =
     [bs] @ ''b(low stock|few left|limited stock|only '' @ [bs] @ ''d+ left)'' @ [bs] @ ''b''"

definition parseStockStatus :: "string \<Rightarrow> StockStatus" where
  "parseStockStatus html =
     (let lowerHtml = toLowerCase html in
      case checkStructuredData html of
        Some structuredAvailability \<Rightarrow> structuredAvailability
      | None \<Rightarrow>
          if test flags_i outOfStockPattern html then unavailable
          else if test flags_i lowStockPattern html then few_left
          else if hasAddToCart lowerHtml \<and> \<not> hasDisabledButton lowerHtml then in_stock
          else if hasAddToCart lowerHtml \<and> hasDisabledButton lowerHtml then unavailable
          else in_stock)"

subsection \<open>parseVariantStock\<close>

text \<open>
  Lines 42--70, and the choice between the two classifiers in \<^verbatim>\<open>checkStock\<close>
  (lines 30--32), where an empty descriptor counts as none.  The two patterns built from
  the size are given by their source text, since the size is spliced into it.
\<close>

definition sizePattern :: regex where
  "sizePattern =
     seq_of (map lit ''Size:'' @ [Star True (CharSet False [CSpace]),
       Group 1 (Plus True (not_char (CHR '','')))])"

definition sizePattern_source :: string where
  "sizePattern_source = ''Size:'' @ [bs] @ ''s*([^,]+)''"

definition colorPattern :: regex where
  "colorPattern =
     seq_of (map lit ''Color:'' @ [Star True (CharSet False [CSpace]),
       Group 1 (Plus True (not_char (CHR '','')))])"

definition colorPattern_source :: string where
  "colorPattern_source = ''Color:'' @ [bs] @ ''s*([^,]+)''"

definition sizeUnavailablePattern_source :: "string \<Rightarrow> string" where
  "sizeUnavailablePattern_source sz =
     sz @ ''[^<]*?(out of stock|sold out|unavailable|disabled)''"

definition sizeButtonPattern_source :: "string \<Rightarrow> string" where
  "sizeButtonPattern_source sz =
     ''data-size=['' @ [dq, sq] @ '']'' @ sz @ ''['' @ [dq, sq] @ ''][^>]*(disabled|class=''
       @ [dq] @ ''[^'' @ [dq] @ '']*disabled[^'' @ [dq] @ '']*'' @ [dq] @ '')''"

definition RegExp :: "string \<Rightarrow> error + regex" where
  "RegExp src = parse_pattern src"

definition group1_trim :: "match_result option \<Rightarrow> error + string option" where
  "group1_trim m =
     (case m of
        None \<Rightarrow> Inr None
      | Some r \<Rightarrow>
          (case groups r 1 of
             None \<Rightarrow> Inl (TypeError ''Cannot read properties of undefined (reading trim)'')
           | Some g \<Rightarrow> Inr (Some (trim g))))"

definition variant_size :: "string \<Rightarrow> error + string option" where
  "variant_size variantString = group1_trim (exec flags_i sizePattern variantString)"

definition variant_color :: "string \<Rightarrow> error + string option" where
  "variant_color variantString = group1_trim (exec flags_i colorPattern variantString)"

definition size_checks :: "string \<Rightarrow> string \<Rightarrow> error + bool" where
  "size_checks html sz =
     (case RegExp (sizeUnavailablePattern_source sz) of
        Inl e \<Rightarrow> Inl e
      | Inr sizeUnavailablePattern \<Rightarrow>
          if test flags_i sizeUnavailablePattern html then Inr True
          else (case RegExp (sizeButtonPattern_source sz) of
                  Inl e \<Rightarrow> Inl e
                | Inr sizeButtonPattern \<Rightarrow> Inr (test flags_i sizeButtonPattern html)))"

definition parseVariantStock :: "string \<Rightarrow> string \<Rightarrow> error + StockStatus" where
  "parseVariantStock html variantString =
     (case variant_size variantString of
        Inl e \<Rightarrow> Inl e
      | Inr size_opt \<Rightarrow>
          (case variant_color variantString of
             Inl e \<Rightarrow> Inl e
           | Inr color \<Rightarrow>
               (case size_opt of
                  None \<Rightarrow> Inr (parseStockStatus html)
                | Some sz \<Rightarrow>
                    if sz = [] then Inr (parseStockStatus html)
                    else (case size_checks html sz of
                            Inl e \<Rightarrow> Inl e
                          | Inr True \<Rightarrow> Inr unavailable
                          | Inr False \<Rightarrow> Inr (parseStockStatus html)))))"

definition classify :: "string \<Rightarrow> string option \<Rightarrow> error + StockStatus" where
  "classify html variant =
     (case variant of
        None \<Rightarrow> Inr (parseStockStatus html)
      | Some v \<Rightarrow> if v = [] then Inr (parseStockStatus html) else parseVariantStock html v)"

subsection \<open>The older copy of parseStockStatus\<close>

text \<open>Lines 196--312 of the same file.\<close>

definition hasAddToCart_legacy :: "string \<Rightarrow> bool" where
  "hasAddToCart_legacy lowerHtml =
     (includes_str lowerHtml ''add to cart'' \<or>
      includes_str lowerHtml ''add to bag'' \<or>
      includes_str lowerHtml ''add to basket'' \<or>
      includes_str lowerHtml ''buy now'' \<or>
      includes_str lowerHtml ''purchase'' \<or>
      includes_str lowerHtml ''pre-order'')"

definition disabledAttrPattern :: regex where
  "disabledAttrPattern =
     alt_of [seq_of (map lit ''disabled='' @ [lit dq] @ map lit ''true'' @ [lit dq]),
             str ''disabled>'',
             seq_of (map lit ''disabled'' @ [CharSet False [CSpace]]),
             seq_of (map lit ''disabled='' @ [lit dq, lit dq]),
             seq_of (map lit ''disabled'' @ [LineEnd])]"

definition disabledAttrPattern_source :: string where
  "disabledAttrPattern_source =
     ''disabled='' @ [dq] @ ''true'' @ [dq] @ ''|disabled>|disabled'' @ [bs] @ ''s|disabled=''
       @ [dq, dq] @ ''|disabled$''"

definition ariaDisabledPattern :: regex where
  "ariaDisabledPattern = seq_of (map lit ''aria-disabled='' @ [lit dq] @ map lit ''true'' @ [lit dq])"

definition ariaDisabledPattern_source :: string where
  "ariaDisabledPattern_source = ''aria-disabled='' @ [dq] @ ''true'' @ [dq]"

definition class_containing :: "string \<Rightarrow> regex" where
  "class_containing w =
     alt_of [seq_of (map lit ''class='' @ [lit dq, Star True (not_char dq)] @ map lit w
               @ [Star True (not_char dq), lit dq]),
             seq_of (map lit ''class='' @ [lit sq, Star True (not_char sq)] @ map lit w
               @ [Star True (not_char sq), lit sq])]"

definition class_containing_source :: "string \<Rightarrow> string" where
  "class_containing_source w =
     ''class='' @ [dq] @ ''[^'' @ [dq] @ '']*'' @ w @ ''[^'' @ [dq] @ '']*'' @ [dq]
       @ ''|class='' @ [sq] @ ''[^'' @ [sq] @ '']*'' @ w @ ''[^'' @ [sq] @ '']*'' @ [sq]"

definition zalandoDisabledPattern :: regex where
  "zalandoDisabledPattern =
     alt_of [str ''button--disabled'', str ''z-button--disabled'', str ''is-disabled'']"

definition zalandoDisabledPattern_source :: string where
  "zalandoDisabledPattern_source = ''button--disabled|z-button--disabled|is-disabled''"

definition hasDisabledButton_legacy :: "string \<Rightarrow> bool" where
  "hasDisabledButton_legacy lowerHtml =
     (let addToCartIndex = indexOf lowerHtml ''add to cart'' in
      if addToCartIndex \<noteq> - 1 then
        (let start = max 0 (addToCartIndex - 1500);
             stop = min (int (length lowerHtml)) (addToCartIndex + 1500);
             buttonSection = substring lowerHtml start stop;
             hasDisabledAttr = test flags_m disabledAttrPattern buttonSection;
             ariaDisabled = test flags_none ariaDisabledPattern buttonSection;
             hasDisabledClass = test flags_i (class_containing ''disabled'') buttonSection;
             hasInactiveClass = test flags_i (class_containing ''inactive'') buttonSection;
             hasZalandoDisabled = test flags_none zalandoDisabledPattern buttonSection
         in hasDisabledAttr \<or> ariaDisabled \<or> hasDisabledClass \<or> hasInactiveClass
              \<or> hasZalandoDisabled)
      else False)"

definition word_phrase :: "string \<Rightarrow> regex" where
  "word_phrase w = seq_of (WordB # map lit w @ [WordB])"

definition word_phrase_source :: "string \<Rightarrow> string" where
  "word_phrase_source w = [bs] @ ''b'' @ w @ [bs] @ ''b''"

definition outOfStockPatterns :: "regex list" where
  "outOfStockPatterns =
     map word_phrase
       [''out of stock'', ''sold out'', ''currently unavailable'', ''no longer available'',
        ''temporarily out of stock'', ''not available'', ''item is no longer available'',
        ''this item is unavailable'']"

definition productArea :: "string \<Rightarrow> string \<Rightarrow> string" where
  "productArea html lowerHtml =
     (let addToCartIndex = indexOf lowerHtml ''add to cart'';
          start = max 0 (addToCartIndex - 2000);
          stop = min (int (length lowerHtml)) (addToCartIndex + 2000)
      in substring html start stop)"

definition onlyLeftPattern :: regex where
  "onlyLeftPattern =
     seq_of (map lit ''only '' @ [Plus True (CharSet False [CDigit])] @ map lit '' left'')"

definition onlyLeftPattern_source :: string where
  "onlyLeftPattern_source = ''only '' @ [bs] @ ''d+ left''"

definition lowStockPatterns :: "regex list" where
  "lowStockPatterns =
     onlyLeftPattern #
     map word_phrase [''low stock'', ''few left'', ''limited stock'', ''almost gone'']"

definition parseStockStatus_legacy :: "string \<Rightarrow> StockStatus" where
  "parseStockStatus_legacy html =
     (let lowerHtml = toLowerCase html in
      if includes_str lowerHtml ''see all buying options''
           \<or> includes_str lowerHtml ''other sellers on amazon''
      then in_stock
      else if list_ex (\<lambda>pattern. test flags_i pattern
                (if hasAddToCart_legacy lowerHtml then productArea html lowerHtml else html))
              outOfStockPatterns
      then unavailable
      else if list_ex (\<lambda>pattern. test flags_i pattern html) lowStockPatterns then few_left
      else case checkStructuredData html of
        Some structuredAvailability \<Rightarrow> structuredAvailability
      | None \<Rightarrow>
          if hasAddToCart_legacy lowerHtml \<and> \<not> hasDisabledButton_legacy lowerHtml then in_stock
          else if hasAddToCart_legacy lowerHtml \<and> hasDisabledButton_legacy lowerHtml
          then unavailable
          else in_stock)"

section \<open>The response parsers of the AI vision service\<close>

text \<open>
  \<^verbatim>\<open>src/src/ai-vision-service.ts\<close>, lines 221--297.  A model answer is the list of
  its content blocks.  Each parser is a \<^verbatim>\<open>try\<close> block (\<open>_try\<close>) and the
  \<^verbatim>\<open>catch\<close> around it.  The fields taken from the parsed answer are JSON values:
  \<^verbatim>\<open>a || b\<close> yields \<open>a\<close> unless it is missing or falsy.  A number is falsy when it
  rounds to zero as a double, that is when it is at most \<open>2 ^ -1075\<close>.
  \<open>number_text\<close> prints the integers below \<open>2 ^ 53\<close>; the text of other numbers in
  an error message is not modelled.  \<open>to_string\<close> is the conversion a template
  literal applies: an object prints as \<^verbatim>\<open>[object Object]\<close> unless it has a member
  \<^verbatim>\<open>toString\<close> of its own, which no JSON value makes callable, so that the
  conversion throws a TypeError; an array joins the conversions of its elements.
\<close>

datatype content_block = TextBlock string | OtherBlock string

type_synonym message = "content_block list"

record StockCheckResult =
  status :: StockStatus
  confidence :: json
  reasoning :: json

record VariantDetectionResult =
  variants :: "json list"
  variants_confidence :: json
  variants_reasoning :: "json option"

definition bracePattern :: regex where
  "bracePattern = seq_of [lit (CHR ''{''), Star True (CharSet False [CSpace, CNotSpace]), lit (CHR ''}'')]"

definition bracePattern_source :: string where
  "bracePattern_source = [bs] @ ''{['' @ [bs] @ ''s'' @ [bs] @ ''S]*'' @ [bs] @ ''}''"

definition number_is_zero :: "nat \<Rightarrow> int \<Rightarrow> bool" where
  "number_is_zero m e = (m = 0 \<or> (e < 0 \<and> int m * 2 ^ 1075 \<le> 10 ^ nat (- e)))"

fun truthy :: "json \<Rightarrow> bool" where
  "truthy JNull = False"
| "truthy (JBool b) = b"
| "truthy (JNumber neg m e) = (\<not> number_is_zero m e)"
| "truthy (JString s) = (s \<noteq> [])"
| "truthy (JArray xs) = True"
| "truthy (JObject kvs) = True"

definition js_or :: "json option \<Rightarrow> json \<Rightarrow> json" where
  "js_or v d = (case v of None \<Rightarrow> d | Some x \<Rightarrow> if truthy x then x else d)"

definition member :: "json \<Rightarrow> string \<Rightarrow> error + json option" where
  "member v k =
     (if v = JNull then Inl (TypeError ''Cannot read properties of null'')
      else Inr (get_prop v k))"

fun decimal :: "nat \<Rightarrow> string" where
  "decimal n =
     (if n < 10 then [char_of (48 + n)]
      else decimal (n div 10) @ [char_of (48 + n mod 10)])"

definition number_text :: "bool \<Rightarrow> nat \<Rightarrow> int \<Rightarrow> string" where
  "number_text neg m e =
     (if 0 \<le> e \<and> int m * 10 ^ nat e < 2 ^ 53
      then (if neg \<and> m \<noteq> 0 then ''-'' else []) @ decimal (m * 10 ^ nat e)
      else ''(number)'')"

fun join_comma :: "string list \<Rightarrow> string" where
  "join_comma [] = []"
| "join_comma [x] = x"
| "join_comma (x # xs) = x @ '','' @ join_comma xs"

fun first_error :: "(error + 'a) list \<Rightarrow> error + 'a list" where
  "first_error [] = Inr []"
| "first_error (Inl e # rs) = Inl e"
| "first_error (Inr x # rs) = (case first_error rs of Inl e \<Rightarrow> Inl e | Inr xs \<Rightarrow> Inr (x # xs))"

fun to_string :: "json \<Rightarrow> error + string" where
  "to_string JNull = Inr ''null''"
| "to_string (JBool b) = Inr (if b then ''true'' else ''false'')"
| "to_string (JNumber neg m e) = Inr (number_text neg m e)"
| "to_string (JString s) = Inr s"
| "to_string (JArray xs) =
     (case first_error (map (\<lambda>x. if x = JNull then Inr [] else to_string x) xs) of
        Inl e \<Rightarrow> Inl e
      | Inr ss \<Rightarrow> Inr (join_comma ss))"
| "to_string (JObject kvs) =
     (if map_of kvs ''toString'' = None then Inr ''[object Object]''
      else Inl (TypeError ''Cannot convert object to primitive value''))"

definition template :: "json option \<Rightarrow> error + string" where
  "template v = (case v of None \<Rightarrow> Inr ''undefined'' | Some x \<Rightarrow> to_string x)"

definition message_of :: "error \<Rightarrow> string" where
  "message_of e = (case e of Error m \<Rightarrow> m | SyntaxError m \<Rightarrow> m | TypeError m \<Rightarrow> m
                   | Unmodelled m \<Rightarrow> m)"

definition first_text :: "message \<Rightarrow> error + string" where
  "first_text response =
     (case response of
        [] \<Rightarrow> Inl (TypeError ''Cannot read properties of undefined (reading type)'')
      | TextBlock text # others \<Rightarrow> Inr text
      | OtherBlock ty # others \<Rightarrow> Inl (Error ''Unexpected response type from Claude''))"

definition extract_json :: "string \<Rightarrow> error + json" where
  "extract_json text =
     (case exec flags_none bracePattern text of
        None \<Rightarrow> Inl (Error ''No JSON found in Claude response'')
      | Some jsonMatch \<Rightarrow> JSON_parse (whole jsonMatch))"

definition valid_status :: "json option \<Rightarrow> StockStatus option" where
  "valid_status v =
     (if v = Some (JString ''in_stock'') then Some in_stock
      else if v = Some (JString ''few_left'') then Some few_left
      else if v = Some (JString ''unavailable'') then Some unavailable
      else None)"

definition parseStockResponse_try :: "message \<Rightarrow> error + StockCheckResult" where
  "parseStockResponse_try response =
     (case first_text response of
        Inl e \<Rightarrow> Inl e
      | Inr text \<Rightarrow>
          (case extract_json text of
             Inl e \<Rightarrow> Inl e
           | Inr parsed \<Rightarrow>
               (case member parsed ''status'' of
                  Inl e \<Rightarrow> Inl e
                | Inr st \<Rightarrow>
                    (case valid_status st of
                       None \<Rightarrow>
                         (case template st of
                            Inl e \<Rightarrow> Inl e
                          | Inr shown \<Rightarrow> Inl (Error (''Invalid status: '' @ shown)))
                     | Some s \<Rightarrow>
                         Inr \<lparr>status = s,
                              confidence = js_or (get_prop parsed ''confidence'') (JString ''medium''),
                              reasoning = js_or (get_prop parsed ''reasoning'')
                                            (JString ''No reasoning provided'')\<rparr>))))"

definition parseStockResponse :: "message \<Rightarrow> StockCheckResult" where
  "parseStockResponse response =
     (case parseStockResponse_try response of
        Inr r \<Rightarrow> r
      | Inl e \<Rightarrow>
          \<lparr>status = unavailable,
           confidence = JString ''low'',
           reasoning = JString (''Failed to parse AI response: '' @ message_of e)\<rparr>)"

definition parseVariantResponse_try :: "message \<Rightarrow> error + VariantDetectionResult" where
  "parseVariantResponse_try response =
     (case first_text response of
        Inl e \<Rightarrow> Inl e
      | Inr text \<Rightarrow>
          (case extract_json text of
             Inl e \<Rightarrow> Inl e
           | Inr parsed \<Rightarrow>
               (case member parsed ''variants'' of
                  Inl e \<Rightarrow> Inl e
                | Inr (Some (JArray vs)) \<Rightarrow>
                    Inr \<lparr>variants = vs,
                         variants_confidence =
                           js_or (get_prop parsed ''confidence'') (JString ''medium''),
                         variants_reasoning = get_prop parsed ''reasoning''\<rparr>
                | Inr other \<Rightarrow> Inl (Error ''Invalid response: variants must be an array''))))"

definition parseVariantResponse :: "message \<Rightarrow> VariantDetectionResult" where
  "parseVariantResponse response =
     (case parseVariantResponse_try response of
        Inr r \<Rightarrow> r
      | Inl e \<Rightarrow>
          \<lparr>variants = [],
           variants_confidence = JString ''low'',
           variants_reasoning = Some (JString (''Failed to parse AI response: '' @ message_of e))\<rparr>)"

section \<open>The response cache of the AI vision service\<close>

text \<open>
  \<^verbatim>\<open>src/src/ai-vision-service.ts\<close>, lines 24--25 and 312--343.  The cache is a
  JavaScript \<^verbatim>\<open>Map<string, { result: any; timestamp: number }>\<close>.  A \<^verbatim>\<open>Map\<close> keeps
  its keys distinct and in insertion order, \<^verbatim>\<open>set\<close> on a present key replaces the
  value in place and on a new key appends, so the model is an association list
  with \<^const>\<open>AList.update\<close> and \<^const>\<open>AList.delete\<close>; \<^verbatim>\<open>size\<close> is its length.
  \<^verbatim>\<open>Date.now()\<close> is an input of the model: every call of it in the source is one
  time argument, in milliseconds.
\<close>

record 'a cache_entry =
  result :: 'a
  timestamp :: int

type_synonym 'a cache = "(string \<times> 'a cache_entry) list"

definition CACHE_TTL :: int where
  "CACHE_TTL = 5 * 60 * 1000"

text \<open>\<^verbatim>\<open>now - v.timestamp > this.CACHE_TTL\<close>, the test both functions share.\<close>

definition expired :: "int \<Rightarrow> 'a cache_entry \<Rightarrow> bool" where
  "expired now e = (now - timestamp e > CACHE_TTL)"

text \<open>
  \<^verbatim>\<open>getFromCache(key)\<close>: the returned pair is the value handed to the caller
  (\<^verbatim>\<open>null\<close> is \<^const>\<open>None\<close>) and the cache afterwards.
\<close>

definition getFromCache :: "int \<Rightarrow> string \<Rightarrow> 'a cache \<Rightarrow> 'a option \<times> 'a cache" where
  "getFromCache now key cache =
     (case map_of cache key of
        None \<Rightarrow> (None, cache)
      | Some cached \<Rightarrow>
          (let age = now - timestamp cached in
           if age > CACHE_TTL then (None, AList.delete key cache)
           else (Some (result cached), cache)))"

text \<open>
  \<^verbatim>\<open>setCache(key, result)\<close> reads the clock twice: \<open>t_store\<close> is the timestamp of
  the new entry, \<open>t_sweep\<close> the \<^verbatim>\<open>now\<close> of the clean-up loop.
\<close>

definition setCache :: "int \<Rightarrow> int \<Rightarrow> string \<Rightarrow> 'a \<Rightarrow> 'a cache \<Rightarrow> 'a cache" where
  "setCache t_store t_sweep key res cache =
     (let stored = AList.update key \<lparr>result = res, timestamp = t_store\<rparr> cache in
      if length stored > 100
      then filter (\<lambda>(k, v). \<not> (t_sweep - timestamp v > CACHE_TTL)) stored
      else stored)"

text \<open>Sequences of cache operations, started on the empty map of the constructor.\<close>

datatype 'a cache_op = Get int string | Put int int string 'a

fun cache_step :: "'a cache \<Rightarrow> 'a cache_op \<Rightarrow> 'a cache" where
  "cache_step c (Get now key) = snd (getFromCache now key c)"
| "cache_step c (Put t_store t_sweep key res) = setCache t_store t_sweep key res c"

definition run_cache :: "'a cache_op list \<Rightarrow> 'a cache" where
  "run_cache ops = foldl cache_step [] ops"

text \<open>A cache holding \<open>n\<close> entries stamped at time 0, and the puts that build it.\<close>

definition fill :: "nat \<Rightarrow> nat cache_op list" where
  "fill n = map (\<lambda>i. Put 0 0 (replicate i (CHR ''a'')) i) [0..<n]"

definition filled :: "nat \<Rightarrow> nat cache" where
  "filled n = map (\<lambda>i. (replicate i (CHR ''a''), \<lparr>result = i, timestamp = 0\<rparr>)) [0..<n]"

section \<open>Capture groups and example inputs\<close>

text \<open>A pattern every match of which sets capture group \<open>n\<close>.\<close>

definition always_group :: "flags \<Rightarrow> nat \<Rightarrow> regex \<Rightarrow> bool" where
  "always_group fl n r =
     (\<forall>st m. m \<in> set (run fl r st) \<longrightarrow> map_of (snd (snd (snd m))) n \<noteq> None)"

text \<open>
  Concrete inputs used below: two model answers, a page with one structured-data block,
  the same page behind a block that describes a breadcrumb list, and a marketplace page.
\<close>

definition answer_certain :: string where
  "answer_certain =
     ''{'' @ [dq] @ ''status'' @ [dq] @ '': '' @ [dq] @ ''in_stock'' @ [dq] @ '', ''
       @ [dq] @ ''confidence'' @ [dq] @ '': '' @ [dq] @ ''certain'' @ [dq] @ ''}''"

definition answer_maybe :: string where
  "answer_maybe = ''{'' @ [dq] @ ''status'' @ [dq] @ '': '' @ [dq] @ ''maybe'' @ [dq] @ ''}''"




definition page_buying_options :: string where
  "page_buying_options = ''See All Buying Options <button disabled>Add to Cart</button>''"

text \<open>
  A pattern that matches nowhere in front of the character \<open>c\<close>, and two long pages:
  an unavailability phrase 2500 characters behind the purchase button, and a disabled
  button 1600 characters in front of a ``buy now'' link.
\<close>

definition no_start :: "flags \<Rightarrow> regex \<Rightarrow> char \<Rightarrow> bool" where
  "no_start fl r c = (\<forall>i p s. run fl r (i, p, c # s, []) = [])"

definition page_far_sold_out :: string where
  "page_far_sold_out =
     ''<button>Add to Cart</button>'' @ replicate 2500 (CHR '' '') @ ''<p>Sold out</p>''"

definition page_far_disabled :: string where
  "page_far_disabled =
     ''<button disabled>Notify me</button>'' @ replicate 1600 (CHR '' '') @ ''<a>Buy now</a>''"

section \<open>The pattern literals of the classifier\<close>

text \<open>Each pattern above is what its source text parses to.\<close>

lemma jsonLdPattern_parse: "parse_pattern jsonLdPattern_source = Inr jsonLdPattern"
  by code_simp

lemma disabledPattern_parse: "parse_pattern disabledPattern_source = Inr disabledPattern"
  by code_simp

lemma outOfStockPattern_parse: "parse_pattern outOfStockPattern_source = Inr outOfStockPattern"
  by code_simp

lemma lowStockPattern_parse: "parse_pattern lowStockPattern_source = Inr lowStockPattern"
  by code_simp

lemma sizePattern_parse: "parse_pattern sizePattern_source = Inr sizePattern"
  by code_simp

lemma colorPattern_parse: "parse_pattern colorPattern_source = Inr colorPattern"
  by code_simp

lemma disabledAttrPattern_parse: "parse_pattern disabledAttrPattern_source = Inr disabledAttrPattern"
  by code_simp

lemma ariaDisabledPattern_parse: "parse_pattern ariaDisabledPattern_source = Inr ariaDisabledPattern"
  by code_simp

lemma class_containing_parse:
  "parse_pattern (class_containing_source ''disabled'') = Inr (class_containing ''disabled'')"
  "parse_pattern (class_containing_source ''inactive'') = Inr (class_containing ''inactive'')"
  by code_simp+

lemma zalandoDisabledPattern_parse:
  "parse_pattern zalandoDisabledPattern_source = Inr zalandoDisabledPattern"
  by code_simp

lemma outOfStockPatterns_parse:
  "map (\<lambda>w. parse_pattern (word_phrase_source w))
     [''out of stock'', ''sold out'', ''currently unavailable'', ''no longer available'',
      ''temporarily out of stock'', ''not available'', ''item is no longer available'',
      ''this item is unavailable'']
   = map Inr outOfStockPatterns"
  by code_simp

lemma lowStockPatterns_parse:
  "parse_pattern onlyLeftPattern_source
     # map (\<lambda>w. parse_pattern (word_phrase_source w))
         [''low stock'', ''few left'', ''limited stock'', ''almost gone'']
   = map Inr lowStockPatterns"
  by code_simp

lemma bracePattern_parse: "parse_pattern bracePattern_source = Inr bracePattern"
  by code_simp

section \<open>Properties of the response cache\<close>

lemma distinct_getFromCache:
  "distinct (map fst c) \<Longrightarrow> distinct (map fst (snd (getFromCache now key c)))"
  by (simp add: getFromCache_def Let_def distinct_delete split: option.split)

lemma distinct_setCache:
  "distinct (map fst c) \<Longrightarrow> distinct (map fst (setCache t1 t2 key res c))"
  by (simp add: setCache_def Let_def distinct_update distinct_map_filter)

lemma distinct_foldl_cache_step:
  "distinct (map fst c) \<Longrightarrow> distinct (map fst (foldl cache_step c ops))"
proof (induction ops arbitrary: c)
  case Nil
  then show ?case by simp
next
  case (Cons op ops)
  have "distinct (map fst (cache_step c op))"
    using Cons.prems by (cases op) (simp_all add: distinct_getFromCache distinct_setCache)
  then show ?case using Cons.IH by simp
qed

lemma distinct_run_cache: "distinct (map fst (run_cache ops))"
  by (simp add: run_cache_def distinct_foldl_cache_step)

lemma map_of_sweep:
  "distinct (map fst c) \<Longrightarrow>
   map_of (filter (\<lambda>(k, v). \<not> (t - timestamp v > CACHE_TTL)) c) k =
     (case map_of c k of
        None \<Rightarrow> None
      | Some e \<Rightarrow> if expired t e then None else Some e)"
proof (induction c)
  case Nil
  show ?case by simp
next
  case (Cons kv c)
  obtain k' e' where kv: "kv = (k', e')" by (cases kv)
  have nofilter: "map_of (filter (\<lambda>(k, v). \<not> (t - timestamp v > CACHE_TTL)) c) k' = None"
    using Cons.prems kv by (auto simp: map_of_eq_None_iff)
  show ?case
  proof (cases "k = k'")
    case True
    then show ?thesis using kv nofilter by (simp add: expired_def)
  next
    case False
    then show ?thesis using kv Cons.IH Cons.prems by (simp add: expired_def)
  qed
qed

lemma get_hit:
  "getFromCache now key c = (Some v, c') \<Longrightarrow>
   \<exists>e. map_of c key = Some e \<and> result e = v \<and> now - timestamp e \<le> CACHE_TTL \<and> c' = c"
  by (auto simp: getFromCache_def Let_def split: option.splits if_splits)

lemma get_expired:
  "map_of c key = Some e \<Longrightarrow> expired now e \<Longrightarrow>
   fst (getFromCache now key c) = None \<and> map_of (snd (getFromCache now key c)) key = None"
  by (simp add: getFromCache_def Let_def expired_def delete_conv)

lemma get_keeps:
  "map_of c k = Some e \<Longrightarrow> \<not> expired now e \<Longrightarrow>
   map_of (snd (getFromCache now key c)) k = Some e"
  by (auto simp: getFromCache_def Let_def expired_def delete_conv split: option.splits)

lemma put_lookup:
  assumes "distinct (map fst c)"
  shows "map_of (setCache t1 t2 key res c) k =
     (let stored = (map_of c)(key \<mapsto> \<lparr>result = res, timestamp = t1\<rparr>) in
      if length (AList.update key \<lparr>result = res, timestamp = t1\<rparr> c) > 100
      then (case stored k of None \<Rightarrow> None
            | Some e \<Rightarrow> if expired t2 e then None else Some e)
      else stored k)"
proof -
  have d: "distinct (map fst (AList.update key \<lparr>result = res, timestamp = t1\<rparr> c))"
    using assms by (simp add: distinct_update)
  show ?thesis
    unfolding setCache_def Let_def
    by (simp add: map_of_sweep [OF d] update_conv)
qed

lemma update_fresh: "k \<notin> fst ` set al \<Longrightarrow> AList.update k v al = al @ [(k, v)]"
  by (induction al) auto

lemma fresh_filled: "replicate n (CHR ''a'') \<notin> fst ` set (filled n)"
  by (auto simp: filled_def replicate_eq_replicate)

lemma run_fill: "n \<le> 100 \<Longrightarrow> run_cache (fill n) = filled n"
proof (induction n)
  case 0
  show ?case by (simp add: fill_def filled_def run_cache_def)
next
  case (Suc n)
  then have IH: "foldl cache_step [] (fill n) = filled n"
    by (simp add: run_cache_def)
  have len: "length (filled n) = n" by (simp add: filled_def)
  have "run_cache (fill (Suc n)) = setCache 0 0 (replicate n (CHR ''a'')) n (filled n)"
    by (simp add: run_cache_def fill_def IH [unfolded fill_def])
  also have "\<dots> = filled n @ [(replicate n (CHR ''a''), \<lparr>result = n, timestamp = 0\<rparr>)]"
    using Suc.prems len by (simp add: setCache_def Let_def update_fresh [OF fresh_filled])
  also have "\<dots> = filled (Suc n)"
    by (simp add: filled_def)
  finally show ?case .
qed

lemma map_of_filled:
  "map_of (filled n) (replicate i (CHR ''a'')) = (if i < n then Some \<lparr>result = i, timestamp = 0\<rparr> else None)"
  by (induction n)
    (auto simp: filled_def map_add_def replicate_eq_replicate split: option.splits)

lemma new_fresh: "''new'' \<notin> fst ` set (filled n)"
proof -
  have h: "''new'' = replicate i (CHR ''a'') \<Longrightarrow> False" for i
    by (cases i) simp_all
  show ?thesis by (auto simp: filled_def dest: h)
qed

text \<open>
  Claim C7.  In every cache reached by a sequence of get and put operations from the
  empty cache: a get returns a value only from an entry whose age is at most the
  five-minute TTL, and leaves the cache as it is; a get of an expired entry returns
  nothing and deletes the entry; a get never removes an entry that is not expired;
  a put stores the value under the key with the store-time stamp, leaves every
  other entry alone while the entry count is at most 100, and above 100 removes
  exactly the entries expired at sweep time; a put never removes a non-expired
  entry of another key; and a value put is returned by a get within the TTL.
\<close>

theorem cache_ttl_and_sweep:
  assumes c: "c = run_cache ops"
  shows
   "(\<forall>now key v c'. getFromCache now key c = (Some v, c') \<longrightarrow>
       (\<exists>e. map_of c key = Some e \<and> result e = v \<and> now - timestamp e \<le> CACHE_TTL \<and> c' = c))
  \<and> (\<forall>now key e. map_of c key = Some e \<and> now - timestamp e > CACHE_TTL \<longrightarrow>
       fst (getFromCache now key c) = None \<and> map_of (snd (getFromCache now key c)) key = None)
  \<and> (\<forall>now key k e. map_of c k = Some e \<and> now - timestamp e \<le> CACHE_TTL \<longrightarrow>
       map_of (snd (getFromCache now key c)) k = Some e)
  \<and> (\<forall>t1 t2 key res.
       map_of (AList.update key \<lparr>result = res, timestamp = t1\<rparr> c) key
         = Some \<lparr>result = res, timestamp = t1\<rparr>
     \<and> (length (AList.update key \<lparr>result = res, timestamp = t1\<rparr> c) \<le> 100 \<longrightarrow>
          setCache t1 t2 key res c = AList.update key \<lparr>result = res, timestamp = t1\<rparr> c)
     \<and> (length (AList.update key \<lparr>result = res, timestamp = t1\<rparr> c) > 100 \<longrightarrow>
          (\<forall>k. map_of (setCache t1 t2 key res c) k =
             (case map_of (AList.update key \<lparr>result = res, timestamp = t1\<rparr> c) k of
                None \<Rightarrow> None
              | Some e \<Rightarrow> if t2 - timestamp e > CACHE_TTL then None else Some e))))
  \<and> (\<forall>t1 t2 key res k e. k \<noteq> key \<and> map_of c k = Some e \<and> t2 - timestamp e \<le> CACHE_TTL \<longrightarrow>
       map_of (setCache t1 t2 key res c) k = Some e)
  \<and> (\<forall>t1 t2 key res now. t2 - t1 \<le> CACHE_TTL \<and> now - t1 \<le> CACHE_TTL \<longrightarrow>
       fst (getFromCache now key (setCache t1 t2 key res c)) = Some res)"
proof -
  have d: "distinct (map fst c)"
    by (simp only: c distinct_run_cache)
  have p1: "\<forall>now key v c'. getFromCache now key c = (Some v, c') \<longrightarrow>
       (\<exists>e. map_of c key = Some e \<and> result e = v \<and> now - timestamp e \<le> CACHE_TTL \<and> c' = c)"
    by (intro allI impI) (erule get_hit)
  have p2: "\<forall>now key e. map_of c key = Some e \<and> now - timestamp e > CACHE_TTL \<longrightarrow>
       fst (getFromCache now key c) = None \<and> map_of (snd (getFromCache now key c)) key = None"
    by (intro allI impI, elim conjE, rule get_expired) (simp_all add: expired_def)
  have p3: "\<forall>now key k e. map_of c k = Some e \<and> now - timestamp e \<le> CACHE_TTL \<longrightarrow>
       map_of (snd (getFromCache now key c)) k = Some e"
    by (intro allI impI, elim conjE, rule get_keeps) (simp_all add: expired_def)
  have p4: "\<forall>t1 t2 key res.
       map_of (AList.update key \<lparr>result = res, timestamp = t1\<rparr> c) key
         = Some \<lparr>result = res, timestamp = t1\<rparr>
     \<and> (length (AList.update key \<lparr>result = res, timestamp = t1\<rparr> c) \<le> 100 \<longrightarrow>
          setCache t1 t2 key res c = AList.update key \<lparr>result = res, timestamp = t1\<rparr> c)
     \<and> (length (AList.update key \<lparr>result = res, timestamp = t1\<rparr> c) > 100 \<longrightarrow>
          (\<forall>k. map_of (setCache t1 t2 key res c) k =
             (case map_of (AList.update key \<lparr>result = res, timestamp = t1\<rparr> c) k of
                None \<Rightarrow> None
              | Some e \<Rightarrow> if t2 - timestamp e > CACHE_TTL then None else Some e)))"
  proof (intro allI conjI impI)
    fix t1 t2 :: int and key :: string and res :: 'a
    show "map_of (AList.update key \<lparr>result = res, timestamp = t1\<rparr> c) key
         = Some \<lparr>result = res, timestamp = t1\<rparr>"
      by (simp add: update_conv)
    show "setCache t1 t2 key res c = AList.update key \<lparr>result = res, timestamp = t1\<rparr> c"
      if "length (AList.update key \<lparr>result = res, timestamp = t1\<rparr> c) \<le> 100"
      using that by (simp add: setCache_def Let_def)
    show "map_of (setCache t1 t2 key res c) k =
             (case map_of (AList.update key \<lparr>result = res, timestamp = t1\<rparr> c) k of
                None \<Rightarrow> None
              | Some e \<Rightarrow> if t2 - timestamp e > CACHE_TTL then None else Some e)"
      if "length (AList.update key \<lparr>result = res, timestamp = t1\<rparr> c) > 100" for k
      using that by (simp add: put_lookup [OF d] update_conv Let_def expired_def split: option.split)
  qed
  have p5: "\<forall>t1 t2 key res k e. k \<noteq> key \<and> map_of c k = Some e \<and> t2 - timestamp e \<le> CACHE_TTL \<longrightarrow>
       map_of (setCache t1 t2 key res c) k = Some e"
    by (simp add: put_lookup [OF d] Let_def expired_def)
  have p6: "\<forall>t1 t2 key res now. t2 - t1 \<le> CACHE_TTL \<and> now - t1 \<le> CACHE_TTL \<longrightarrow>
       fst (getFromCache now key (setCache t1 t2 key res c)) = Some res"
    by (simp add: getFromCache_def put_lookup [OF d] Let_def expired_def)
  show ?thesis
    by (intro conjI) (rule p1, rule p2, rule p3, rule p4, rule p5, rule p6)
qed

theorem cache_ttl_and_sweep_witness:
  "getFromCache 300000 ''k'' (run_cache [Put 0 0 ''k'' (7::nat)])
     = (Some 7, run_cache [Put 0 0 ''k'' 7])
   \<and> getFromCache 300001 ''k'' (run_cache [Put 0 0 ''k'' (7::nat)]) = (None, [])
   \<and> length (AList.update ''new'' \<lparr>result = 7, timestamp = 300001\<rparr> (run_cache (fill 100))) = 101
   \<and> map_of (setCache 300001 300001 ''new'' 7 (run_cache (fill 100))) ''aaa'' = None
   \<and> map_of (setCache 300001 300001 ''new'' 7 (run_cache (fill 100))) ''new''
        = Some \<lparr>result = 7, timestamp = 300001\<rparr>
   \<and> map_of (setCache 300000 300000 ''new'' 7 (run_cache (fill 100))) ''aaa''
        = Some \<lparr>result = 3, timestamp = 0\<rparr>"
proof -
  have aaa: "''aaa'' = replicate 3 (CHR ''a'')" by (simp add: numeral_3_eq_3)
  have len: "length (AList.update ''new'' \<lparr>result = 7, timestamp = 300001\<rparr> (run_cache (fill 100))) = 101"
    by (simp add: run_fill update_fresh [OF new_fresh]) (simp add: filled_def)
  have old: "map_of (run_cache (fill 100)) ''aaa'' = Some \<lparr>result = 3, timestamp = 0\<rparr>"
    by (simp only: aaa run_fill map_of_filled) simp
  note T = cache_ttl_and_sweep [OF refl, of "fill 100"]
  note S = cache_ttl_and_sweep [OF refl, of "[Put 0 0 ''k'' (7::nat)]"]
  have one: "run_cache [Put 0 0 ''k'' (7::nat)] = [(''k'', \<lparr>result = 7, timestamp = 0\<rparr>)]"
    by (simp add: run_cache_def setCache_def)
  have g1: "getFromCache 300000 ''k'' (run_cache [Put 0 0 ''k'' (7::nat)])
     = (Some 7, run_cache [Put 0 0 ''k'' 7])"
    by (simp add: one getFromCache_def CACHE_TTL_def)
  have g2: "getFromCache 300001 ''k'' (run_cache [Put 0 0 ''k'' (7::nat)]) = (None, [])"
    using S by (simp add: one getFromCache_def CACHE_TTL_def)
  have s1: "map_of (setCache 300001 300001 ''new'' 7 (run_cache (fill 100))) ''aaa'' = None"
    using T len old by (simp add: update_conv CACHE_TTL_def)
  have s2: "map_of (setCache 300001 300001 ''new'' 7 (run_cache (fill 100))) ''new''
        = Some \<lparr>result = 7, timestamp = 300001\<rparr>"
    using T len by (simp add: update_conv CACHE_TTL_def)
  have s3: "map_of (setCache 300000 300000 ''new'' 7 (run_cache (fill 100))) ''aaa''
        = Some \<lparr>result = 3, timestamp = 0\<rparr>"
    using T old by (simp add: CACHE_TTL_def)
  from g1 g2 len s1 s2 s3 show ?thesis by simp
qed

section \<open>Properties of the classifier and the parsers\<close>


lemma always_group_Group: "always_group fl n (Group n a)"
  unfolding always_group_def
proof (intro allI impI)
  fix st m
  assume m: "m \<in> set (run fl (Group n a) st)"
  obtain i p s caps where st: "st = (i, p, s, caps)" by (cases st) auto
  from m show "map_of (snd (snd (snd m))) n \<noteq> None"
    unfolding st by auto
qed

lemma always_group_Seq: "always_group fl n b \<Longrightarrow> always_group fl n (Seq a b)"
  unfolding always_group_def
proof (intro allI impI)
  fix st m
  assume b: "\<forall>st m. m \<in> set (run fl b st) \<longrightarrow> map_of (snd (snd (snd m))) n \<noteq> None"
    and m: "m \<in> set (run fl (Seq a b) st)"
  from m obtain st' where "m \<in> set (run fl b st')"
    unfolding run.simps set_concat set_map by blast
  with b show "map_of (snd (snd (snd m))) n \<noteq> None" by blast
qed

lemma search_from_group:
  assumes "always_group fl n r"
  shows "search_from fl r i p s = Some (k, m) \<Longrightarrow> map_of (snd (snd (snd m))) n \<noteq> None"
proof (induction s arbitrary: i p)
  case Nil
  then have "m \<in> set (run fl r (i, p, [], []))"
    by (auto split: list.splits)
  with assms show ?case unfolding always_group_def by blast
next
  case (Cons c cs)
  show ?case
  proof (cases "run fl r (i, p, c # cs, [])")
    case Nil
    with Cons show ?thesis by simp
  next
    case (Cons m' ms)
    with Cons.prems have "m \<in> set (run fl r (i, p, c # cs, []))" by simp
    with assms show ?thesis unfolding always_group_def by blast
  qed
qed

lemma exec_group:
  assumes "always_group fl n r" and "exec fl r s = Some res"
  shows "groups res n \<noteq> None"
proof -
  from assms(2) obtain i j p t caps where
    s: "search_from fl r 0 None s = Some (i, (j, p, t, caps))" and
    res: "res = \<lparr>whole = take (j - i) (drop i s),
                groups = (\<lambda>n. case map_of caps n of
                                 None \<Rightarrow> None
                               | Some (a, b) \<Rightarrow> Some (take (b - a) (drop a s)))\<rparr>"
    by (auto simp: exec_def split: option.splits)
  from search_from_group [OF assms(1) s] have "map_of caps n \<noteq> None"
    by simp
  then show ?thesis by (auto simp: res)
qed

lemma sizePattern_group: "always_group fl 1 sizePattern"
  unfolding sizePattern_def
  by (simp add: always_group_Seq always_group_Group)

lemma colorPattern_group: "always_group fl 1 colorPattern"
  unfolding colorPattern_def
  by (simp add: always_group_Seq always_group_Group)

lemma variant_size_total: "\<exists>r. variant_size v = Inr r"
proof (cases "exec flags_i sizePattern v")
  case None
  then show ?thesis by (simp add: variant_size_def group1_trim_def)
next
  case (Some res)
  from exec_group [OF sizePattern_group Some] show ?thesis
    by (auto simp: variant_size_def group1_trim_def Some)
qed

lemma variant_color_total: "\<exists>r. variant_color v = Inr r"
proof (cases "exec flags_i colorPattern v")
  case None
  then show ?thesis by (simp add: variant_color_def group1_trim_def)
next
  case (Some res)
  from exec_group [OF colorPattern_group Some] show ?thesis
    by (auto simp: variant_color_def group1_trim_def Some)
qed

lemma parseVariantStock_cases:
  "parseVariantStock html v = Inr (parseStockStatus html)
   \<or> (\<exists>sz. variant_size v = Inr (Some sz) \<and> sz \<noteq> [] \<and> size_checks html sz = Inr True
        \<and> parseVariantStock html v = Inr unavailable)
   \<or> (\<exists>sz e. variant_size v = Inr (Some sz) \<and> sz \<noteq> [] \<and> size_checks html sz = Inl e
        \<and> parseVariantStock html v = Inl e)"
proof -
  obtain so where so: "variant_size v = Inr so" using variant_size_total by blast
  obtain co where co: "variant_color v = Inr co" using variant_color_total by blast
  show ?thesis
  proof (cases so)
    case None
    then show ?thesis by (simp add: parseVariantStock_def so co)
  next
    case (Some sz)
    show ?thesis
    proof (cases "sz = []")
      case True
      then show ?thesis by (simp add: parseVariantStock_def so co Some)
    next
      case False
      then show ?thesis
        by (cases "size_checks html sz")
           (auto simp: parseVariantStock_def so co Some split: bool.splits)
    qed
  qed
qed

text \<open>
  Claim C10.  When no size can be taken from the variant descriptor (the size pattern
  does not match, or its group is blank after trimming), classification with the
  variant is the whole-product classification of the same HTML, whatever colour the
  descriptor names; and two descriptors that yield the same size are classified alike:
  the colour is never consulted.
\<close>

theorem no_size_is_whole_product:
  "(variant_size v = Inr None \<or> variant_size v = Inr (Some [])
      \<longrightarrow> parseVariantStock html v = Inr (parseStockStatus html))
   \<and> (variant_size v' = variant_size v
      \<longrightarrow> parseVariantStock html v' = parseVariantStock html v)"
proof -
  obtain co where co: "variant_color v = Inr co" using variant_color_total by blast
  obtain co' where co': "variant_color v' = Inr co'" using variant_color_total by blast
  have first: "variant_size v = Inr None \<or> variant_size v = Inr (Some [])
      \<longrightarrow> parseVariantStock html v = Inr (parseStockStatus html)"
    by (auto simp: parseVariantStock_def co)
  have second: "variant_size v' = variant_size v
      \<longrightarrow> parseVariantStock html v' = parseVariantStock html v"
  proof
    assume eq: "variant_size v' = variant_size v"
    show "parseVariantStock html v' = parseVariantStock html v"
      unfolding parseVariantStock_def eq co co'
      by (cases "variant_size v") simp_all
  qed
  from first second show ?thesis by (rule conjI)
qed

theorem no_size_is_whole_product_witness:
  "variant_size ''Color: Black'' = Inr None
   \<and> variant_color ''Color: Black'' = Inr (Some ''Black'')
   \<and> parseVariantStock ''<button disabled>Add to Cart</button>'' ''Color: Black''
       = Inr (parseStockStatus ''<button disabled>Add to Cart</button>'')
   \<and> variant_size ''Size:  , Color: Black'' = Inr (Some [])
   \<and> parseVariantStock ''<button disabled>Add to Cart</button>'' ''Size:  , Color: Black''
       = Inr (parseStockStatus ''<button disabled>Add to Cart</button>'')
   \<and> variant_size ''Size: M, Color: Red'' = variant_size ''Color: Black, Size: M''
   \<and> parseVariantStock ''<p>Only 2 left</p>'' ''Size: M, Color: Red''
       = parseVariantStock ''<p>Only 2 left</p>'' ''Color: Black, Size: M''"
proof -
  have a: "variant_size ''Color: Black'' = Inr None" by code_simp
  have b: "variant_color ''Color: Black'' = Inr (Some ''Black'')" by code_simp
  have c: "variant_size ''Size:  , Color: Black'' = Inr (Some [])" by code_simp
  have d: "variant_size ''Size: M, Color: Red'' = variant_size ''Color: Black, Size: M''"
    by code_simp
  show ?thesis
    using a b c d
      no_size_is_whole_product
        [of "''Color: Black''" "''<button disabled>Add to Cart</button>''" "''Color: Black''"]
      no_size_is_whole_product
        [of "''Size:  , Color: Black''" "''<button disabled>Add to Cart</button>''"
            "''Size:  , Color: Black''"]
      no_size_is_whole_product
        [of "''Color: Black, Size: M''" "''<p>Only 2 left</p>''" "''Size: M, Color: Red''"]
    by simp
qed

text \<open>
  Claim C5 says that, for every HTML text and every variant descriptor, classification
  with the variant returns \<open>unavailable\<close> or the whole-product classification of
  the same HTML.  Those are the two results of \<^verbatim>\<open>parseVariantStock\<close>, the
  first only when one of the two size patterns matches the page, and the only other
  outcome is an error raised while the two size patterns are built (lemma
  \<open>parseVariantStock_cases\<close>).  The size taken from the descriptor is spliced
  unescaped into the source of a regular expression, so the descriptor
  \<^verbatim>\<open>Size: XL)\<close> makes \<^verbatim>\<open>new RegExp\<close> throw a SyntaxError: the call yields
  neither result, on a page whose whole-product classification is \<open>in_stock\<close>.
\<close>

theorem variant_descriptor_throws:
  "parseVariantStock ''<button>Add to Cart</button>'' ''Size: XL)''
     = Inl (SyntaxError ''Unmatched ) in regular expression'')
   \<and> parseStockStatus ''<button>Add to Cart</button>'' = in_stock"
  by code_simp

text \<open>
  Claim C1 says that classification never throws, for every HTML text and every
  optional variant descriptor.  The size taken from the descriptor is spliced
  unescaped into the source of a regular expression, so a descriptor such as
  \<^verbatim>\<open>Size: M (Tall\<close> makes \<^verbatim>\<open>new RegExp\<close> throw a SyntaxError, which
  \<^verbatim>\<open>parseVariantStock\<close> does not catch.
\<close>

theorem classify_throws_on_size_pattern:
  "classify ''<button>Add to Cart</button>'' (Some ''Size: M (Tall'')
     = Inl (SyntaxError ''Unterminated group'')"
  by code_simp

lemma no_json_degrades:
  "(first_text response = Inl e \<or>
    (\<exists>text. first_text response = Inr text \<and>
       ((exec flags_none bracePattern text = None
           \<and> e = Error ''No JSON found in Claude response'')
        \<or> (\<exists>m. exec flags_none bracePattern text = Some m \<and> JSON_parse (whole m) = Inl e))))
   \<longrightarrow>
     parseStockResponse response =
       \<lparr>status = unavailable, confidence = JString ''low'',
        reasoning = JString (''Failed to parse AI response: '' @ message_of e)\<rparr>
     \<and> parseVariantResponse response =
       \<lparr>variants = [], variants_confidence = JString ''low'',
        variants_reasoning = Some (JString (''Failed to parse AI response: '' @ message_of e))\<rparr>"
  by (auto simp: parseStockResponse_def parseStockResponse_try_def parseVariantResponse_def
        parseVariantResponse_try_def extract_json_def)

lemma invalid_shape_degrades:
  "(first_text response = Inr text \<and> exec flags_none bracePattern text = Some m
      \<and> JSON_parse (whole m) = Inr parsed \<longrightarrow>
      (valid_status (get_prop parsed ''status'') = None \<longrightarrow>
         (\<exists>msg. parseStockResponse response =
            \<lparr>status = unavailable, confidence = JString ''low'',
             reasoning = JString (''Failed to parse AI response: '' @ msg)\<rparr>))
      \<and> ((\<forall>vs. get_prop parsed ''variants'' \<noteq> Some (JArray vs)) \<longrightarrow>
         (\<exists>msg. parseVariantResponse response =
            \<lparr>variants = [], variants_confidence = JString ''low'',
             variants_reasoning =
               Some (JString (''Failed to parse AI response: '' @ msg))\<rparr>)))"
proof (intro impI conjI; elim conjE)
  assume t: "first_text response = Inr text"
    and m: "exec flags_none bracePattern text = Some m"
    and p: "JSON_parse (whole m) = Inr parsed"
  have ej: "extract_json text = Inr parsed"
    by (simp add: extract_json_def m p)
  {
    assume "valid_status (get_prop parsed ''status'') = None"
    then have "\<exists>e. parseStockResponse_try response = Inl e"
      by (simp add: parseStockResponse_try_def t ej member_def split: sum.split)
    then show "\<exists>msg. parseStockResponse response =
            \<lparr>status = unavailable, confidence = JString ''low'',
             reasoning = JString (''Failed to parse AI response: '' @ msg)\<rparr>"
      by (auto simp: parseStockResponse_def)
  }
  {
    assume "\<forall>vs. get_prop parsed ''variants'' \<noteq> Some (JArray vs)"
    then have "\<exists>e. parseVariantResponse_try response = Inl e"
      by (auto simp: parseVariantResponse_try_def t ej member_def
            split: option.splits json.splits)
    then show "\<exists>msg. parseVariantResponse response =
            \<lparr>variants = [], variants_confidence = JString ''low'',
             variants_reasoning =
               Some (JString (''Failed to parse AI response: '' @ msg))\<rparr>"
      by (auto simp: parseVariantResponse_def)
  }
qed

text \<open>
  Claim C6.  When the model answer has no text block, or its text holds no
  brace-delimited span, or that span is not JSON, both response parsers return their
  degraded result (\<open>unavailable\<close> and no variants, confidence \<open>low\<close>, the error
  message as reasoning).  When the span parses but the status is not one of the three
  values, or \<open>variants\<close> is not an array, the parser concerned returns the same
  degraded result.  The parsers return a result in every case; the failure never
  reaches the caller.
\<close>

theorem malformed_answer_degrades:
  "((first_text response = Inl e \<or>
     (\<exists>text. first_text response = Inr text \<and>
        ((exec flags_none bracePattern text = None
            \<and> e = Error ''No JSON found in Claude response'')
         \<or> (\<exists>m. exec flags_none bracePattern text = Some m
               \<and> JSON_parse (whole m) = Inl e))))
    \<longrightarrow>
      parseStockResponse response =
        \<lparr>status = unavailable, confidence = JString ''low'',
         reasoning = JString (''Failed to parse AI response: '' @ message_of e)\<rparr>
      \<and> parseVariantResponse response =
        \<lparr>variants = [], variants_confidence = JString ''low'',
         variants_reasoning =
           Some (JString (''Failed to parse AI response: '' @ message_of e))\<rparr>)
   \<and> (first_text response = Inr text \<and> exec flags_none bracePattern text = Some m
      \<and> JSON_parse (whole m) = Inr parsed \<longrightarrow>
      (valid_status (get_prop parsed ''status'') = None \<longrightarrow>
         (\<exists>msg. parseStockResponse response =
            \<lparr>status = unavailable, confidence = JString ''low'',
             reasoning = JString (''Failed to parse AI response: '' @ msg)\<rparr>))
      \<and> ((\<forall>vs. get_prop parsed ''variants'' \<noteq> Some (JArray vs)) \<longrightarrow>
         (\<exists>msg. parseVariantResponse response =
            \<lparr>variants = [], variants_confidence = JString ''low'',
             variants_reasoning =
               Some (JString (''Failed to parse AI response: '' @ msg))\<rparr>)))"
  using no_json_degrades [of response e] invalid_shape_degrades [of response "text" m parsed]
  by blast

theorem malformed_answer_degrades_witness:
  "parseStockResponse [TextBlock ''I cannot see a size selector.''] =
     \<lparr>status = unavailable, confidence = JString ''low'',
      reasoning = JString ''Failed to parse AI response: No JSON found in Claude response''\<rparr>
   \<and> parseVariantResponse [TextBlock ''I cannot see a size selector.''] =
     \<lparr>variants = [], variants_confidence = JString ''low'',
      variants_reasoning =
        Some (JString ''Failed to parse AI response: No JSON found in Claude response'')\<rparr>
   \<and> status (parseStockResponse [TextBlock answer_maybe]) = unavailable
   \<and> confidence (parseStockResponse [TextBlock answer_maybe]) = JString ''low''
   \<and> variants (parseVariantResponse [TextBlock answer_maybe]) = []
   \<and> variants_confidence (parseVariantResponse [TextBlock answer_maybe]) = JString ''low''"
proof -
  have t: "first_text [TextBlock ''I cannot see a size selector.'']
      = Inr ''I cannot see a size selector.''"
    by (simp add: first_text_def)
  have n: "exec flags_none bracePattern ''I cannot see a size selector.'' = None"
    by code_simp
  have t': "first_text [TextBlock answer_maybe] = Inr answer_maybe"
    by (simp add: first_text_def)
  have w: "map_option whole (exec flags_none bracePattern answer_maybe) = Some answer_maybe"
    by code_simp
  then obtain m where m: "exec flags_none bracePattern answer_maybe = Some m"
    and wm: "whole m = answer_maybe" by auto
  have p: "JSON_parse (whole m) = Inr (JObject [(''status'', JString ''maybe'')])"
    unfolding wm by code_simp
  have vs: "valid_status (get_prop (JObject [(''status'', JString ''maybe'')]) ''status'') = None"
    by (simp add: valid_status_def get_prop_def)
  have va: "\<forall>vs. get_prop (JObject [(''status'', JString ''maybe'')]) ''variants''
      \<noteq> Some (JArray vs)"
    by (simp add: get_prop_def)
  note T1 = malformed_answer_degrades
    [of "[TextBlock ''I cannot see a size selector.'']"
        "Error ''No JSON found in Claude response''"]
  note T2 = malformed_answer_degrades
    [of "[TextBlock answer_maybe]" _ answer_maybe m "JObject [(''status'', JString ''maybe'')]"]
  from T1 t n have one:
    "parseStockResponse [TextBlock ''I cannot see a size selector.''] =
       \<lparr>status = unavailable, confidence = JString ''low'',
        reasoning = JString ''Failed to parse AI response: No JSON found in Claude response''\<rparr>
     \<and> parseVariantResponse [TextBlock ''I cannot see a size selector.''] =
       \<lparr>variants = [], variants_confidence = JString ''low'',
        variants_reasoning =
          Some (JString ''Failed to parse AI response: No JSON found in Claude response'')\<rparr>"
    by (simp add: message_of_def)
  from T2 t' m p vs va obtain msg msg' where
    "parseStockResponse [TextBlock answer_maybe] =
       \<lparr>status = unavailable, confidence = JString ''low'',
        reasoning = JString (''Failed to parse AI response: '' @ msg)\<rparr>"
    "parseVariantResponse [TextBlock answer_maybe] =
       \<lparr>variants = [], variants_confidence = JString ''low'',
        variants_reasoning = Some (JString (''Failed to parse AI response: '' @ msg'))\<rparr>"
    by blast
  with one show ?thesis by simp
qed

text \<open>
  Claim C9 says that the returned confidence is always one of \<open>high\<close>, \<open>medium\<close>,
  \<open>low\<close>.  The parsers return \<^verbatim>\<open>parsed.confidence || 'medium'\<close>: any truthy value
  of the field passes unchecked, here the string \<open>certain\<close>.
\<close>

theorem confidence_not_validated:
  "confidence (parseStockResponse [TextBlock answer_certain]) = JString ''certain''"
  by code_simp



text \<open>
  Claim C4, amended.  In the older copy of \<^verbatim>\<open>parseStockStatus\<close>, every page whose
  lower-cased text contains ``see all buying options'' or ``other sellers on amazon''
  is classified \<open>in_stock\<close> at once, also when the add-to-cart button is disabled.
  (The current \<^verbatim>\<open>parseStockStatus\<close> has no such check: see the counterexample.)
\<close>

theorem marketplace_phrase_legacy:
  assumes "includes_str (toLowerCase html) ''see all buying options''
           \<or> includes_str (toLowerCase html) ''other sellers on amazon''"
  shows "parseStockStatus_legacy html = in_stock"
  using assms by (simp add: parseStockStatus_legacy_def Let_def)

theorem marketplace_phrase_legacy_witness:
  "includes_str (toLowerCase page_buying_options) ''see all buying options''
   \<and> hasDisabledButton_legacy (toLowerCase page_buying_options)
   \<and> parseStockStatus_legacy page_buying_options = in_stock"
proof -
  have a: "includes_str (toLowerCase page_buying_options) ''see all buying options''"
    by code_simp
  have d: "hasDisabledButton_legacy (toLowerCase page_buying_options)"
    by code_simp
  from a have "includes_str (toLowerCase page_buying_options) ''see all buying options''
           \<or> includes_str (toLowerCase page_buying_options) ''other sellers on amazon''"
    by simp
  from marketplace_phrase_legacy [OF this] a d show ?thesis by simp
qed

text \<open>
  The current \<^verbatim>\<open>parseStockStatus\<close> classifies the same page \<open>unavailable\<close>.
\<close>

theorem marketplace_phrase_counterexample:
  "includes_str (toLowerCase page_buying_options) ''see all buying options''
   \<and> parseStockStatus page_buying_options = unavailable"
  by code_simp

section \<open>Scanning long pages\<close>

lemma search_skip:
  assumes "no_start fl r c"
  shows "search_from fl r i p (replicate n c @ s)
           = search_from fl r (i + n) (if n = 0 then p else Some c) s"
proof (induction n arbitrary: i p)
  case 0
  show ?case by simp
next
  case (Suc n)
  have "run fl r (i, p, c # replicate n c @ s, []) = []"
    using assms unfolding no_start_def by blast
  then show ?case using Suc [of "Suc i" "Some c"] by simp
qed

lemma search_found:
  assumes "run fl r (i + length pre, (if pre = [] then p else Some (last pre)), suf, []) \<noteq> []"
  shows "search_from fl r i p (pre @ suf) \<noteq> None"
  using assms
proof (induction pre arbitrary: i p)
  case Nil
  then show ?case
    by (cases suf) (auto split: list.splits)
next
  case (Cons c cs)
  have "run fl r (Suc i + length cs, (if cs = [] then Some c else Some (last cs)), suf, []) \<noteq> []"
    using Cons.prems by (auto split: if_splits)
  from Cons.IH [OF this] show ?case
    by (auto split: list.splits)
qed

lemma includes_skip:
  "c \<noteq> q \<Longrightarrow> includes_str (replicate n c @ s) (q # qs) = includes_str s (q # qs)"
  by (induction n) auto

lemma indexOf_skip:
  "c \<noteq> q \<Longrightarrow> indexOf_from i (replicate n c @ s) (q # qs) = indexOf_from (i + n) s (q # qs)"
  by (induction n arbitrary: i) auto

lemma case_replicate:
  "0 < n \<Longrightarrow> (case replicate n c @ s of [] \<Rightarrow> a | x # t \<Rightarrow> f x t) = f c (replicate (n - 1) c @ s)"
  by (cases n) auto

lemma startsWith_replicate:
  "0 < n \<Longrightarrow> startsWith (replicate n c @ s) (q # qs) = (c = q \<and> startsWith (replicate (n - 1) c @ s) qs)"
  by (cases n) auto

lemma search_skip_end:
  "no_start fl r c \<Longrightarrow>
   search_from fl r i p (replicate n c) = search_from fl r (i + n) (if n = 0 then p else Some c) []"
  using search_skip [of fl r c i p n "[]"] by simp

lemma includes_skip_end:
  "c \<noteq> q \<Longrightarrow> includes_str (replicate n c) (q # qs) = False"
  using includes_skip [of c q n "[]" qs] by simp

lemma indexOf_skip_end:
  "c \<noteq> q \<Longrightarrow> indexOf_from i (replicate n c) (q # qs) = - 1"
  using indexOf_skip [of c q i n "[]" qs] by simp

lemma case_replicate_end:
  "0 < n \<Longrightarrow> (case replicate n c of [] \<Rightarrow> a | x # t \<Rightarrow> f x t) = f c (replicate (n - 1) c)"
  by (cases n) auto

lemma run_cong: "r = r' \<Longrightarrow> run fl r = run fl r'"
  by simp

lemma flags_simps:
  "ignoreCase flags_i = True" "multiline flags_i = False"
  "ignoreCase flags_m = False" "multiline flags_m = True"
  "ignoreCase flags_none = False" "multiline flags_none = False"
  by (simp_all add: flags_i_def flags_m_def flags_none_def)

lemmas char_eval = toLowerCase_char_def canonicalize_def is_word_def is_space_def is_digit_def
  is_line_terminator_def char_of_def set_match_def word_before_def word_after_def bit_Suc_0_iff

lemmas pattern_eval = lit_def str_def not_char_def quote_def dq_def sq_def flags_simps

lemmas run_patterns = run_cong [OF jsonLdPattern_def] run_cong [OF outOfStockPattern_def]
  run_cong [OF lowStockPattern_def] run_cong [OF disabledPattern_def]

lemma no_start_jsonLd: "no_start flags_i jsonLdPattern (CHR '' '')"
  by (simp add: no_start_def jsonLdPattern_def pattern_eval char_eval)

lemma no_start_outOfStock: "no_start flags_i outOfStockPattern (CHR '' '')"
  by (simp add: no_start_def outOfStockPattern_def pattern_eval char_eval)

lemma no_start_lowStock: "no_start flags_i lowStockPattern (CHR '' '')"
  by (simp add: no_start_def lowStockPattern_def pattern_eval char_eval)

lemma no_start_disabled: "no_start flags_i disabledPattern (CHR '' '')"
  by (simp add: no_start_def disabledPattern_def pattern_eval char_eval)

lemmas skips = search_skip [OF no_start_jsonLd] search_skip [OF no_start_outOfStock]
  search_skip [OF no_start_lowStock] search_skip [OF no_start_disabled]
  search_skip_end [OF no_start_jsonLd] search_skip_end [OF no_start_outOfStock]
  search_skip_end [OF no_start_lowStock] search_skip_end [OF no_start_disabled]
  includes_skip indexOf_skip case_replicate startsWith_replicate
  includes_skip_end indexOf_skip_end case_replicate_end

lemma far1: "checkStructuredData page_far_sold_out = None"
  by (simp add: page_far_sold_out_def checkStructuredData_def exec_def
        skips run_patterns pattern_eval char_eval)

lemma far2: "test flags_i outOfStockPattern page_far_sold_out"
  by (simp add: page_far_sold_out_def test_def
        skips run_patterns pattern_eval char_eval)

lemma far3: "indexOf (toLowerCase page_far_sold_out) ''add to cart'' = 8"
  by (simp add: page_far_sold_out_def indexOf_def toLowerCase_def
        skips pattern_eval char_eval)

lemma far4: "hasAddToCart (toLowerCase page_far_sold_out)"
  by (simp add: page_far_sold_out_def hasAddToCart_def toLowerCase_def
        skips pattern_eval char_eval)

lemma far5: "substring page_far_sold_out (8 - 2000) (8 + 2000)
     = ''<button>Add to Cart</button>'' @ replicate 1980 (CHR '' '')"
  by (simp add: page_far_sold_out_def substring_def)

lemma far6: "\<not> test flags_i outOfStockPattern
     (''<button>Add to Cart</button>'' @ replicate 1980 (CHR '' ''))"
  by (simp add: test_def skips run_patterns pattern_eval char_eval)

lemma no_start_word_phrase:
  "\<not> set_match (ignoreCase fl) False [CChar q] c \<Longrightarrow> no_start fl (word_phrase (q # qs)) c"
  by (cases qs) (simp_all add: no_start_def word_phrase_def lit_def)

lemma no_start_onlyLeft: "no_start flags_i onlyLeftPattern (CHR '' '')"
  by (simp add: no_start_def onlyLeftPattern_def pattern_eval char_eval)

lemma no_start_disabledAttr: "no_start flags_m disabledAttrPattern (CHR '' '')"
  by (simp add: no_start_def disabledAttrPattern_def pattern_eval char_eval)

lemma no_start_ariaDisabled: "no_start flags_none ariaDisabledPattern (CHR '' '')"
  by (simp add: no_start_def ariaDisabledPattern_def pattern_eval char_eval)

lemma no_start_class_containing: "no_start flags_i (class_containing w) (CHR '' '')"
  by (simp add: no_start_def class_containing_def pattern_eval char_eval)

lemma no_start_zalando: "no_start flags_none zalandoDisabledPattern (CHR '' '')"
  by (simp add: no_start_def zalandoDisabledPattern_def pattern_eval char_eval)

lemmas run_patterns_legacy = run_cong [OF word_phrase_def] run_cong [OF onlyLeftPattern_def]
  run_cong [OF disabledAttrPattern_def] run_cong [OF ariaDisabledPattern_def]
  run_cong [OF class_containing_def] run_cong [OF zalandoDisabledPattern_def]

lemmas skips_legacy = search_skip [OF no_start_word_phrase] search_skip [OF no_start_onlyLeft]
  search_skip [OF no_start_disabledAttr] search_skip [OF no_start_ariaDisabled]
  search_skip [OF no_start_class_containing] search_skip [OF no_start_zalando]
  search_skip_end [OF no_start_word_phrase] search_skip_end [OF no_start_onlyLeft]
  search_skip_end [OF no_start_disabledAttr] search_skip_end [OF no_start_ariaDisabled]
  search_skip_end [OF no_start_class_containing] search_skip_end [OF no_start_zalando]

lemma far_lower: "toLowerCase page_far_sold_out =
     ''<button>add to cart</button>'' @ replicate 2500 (CHR '' '') @ ''<p>sold out</p>''"
  by (simp add: page_far_sold_out_def toLowerCase_def char_eval)

lemma far_len: "int (length (toLowerCase page_far_sold_out)) = 2543"
  by (simp add: page_far_sold_out_def toLowerCase_def)

lemma far_legacy_area: "productArea page_far_sold_out (toLowerCase page_far_sold_out)
     = ''<button>Add to Cart</button>'' @ replicate 1980 (CHR '' '')"
  unfolding productArea_def far3 far_len Let_def
  by (simp add: page_far_sold_out_def substring_def)


lemma far_legacy_oos:
  "\<not> list_ex (\<lambda>pattern. test flags_i pattern
       (''<button>Add to Cart</button>'' @ replicate 1980 (CHR '' ''))) outOfStockPatterns"
  by (simp add: outOfStockPatterns_def test_def skips skips_legacy run_patterns_legacy
        pattern_eval char_eval)


lemma far_legacy_low:
  "\<not> list_ex (\<lambda>pattern. test flags_i pattern page_far_sold_out) lowStockPatterns"
  by (simp add: lowStockPatterns_def page_far_sold_out_def test_def skips skips_legacy
        run_patterns_legacy pattern_eval char_eval)

lemma far_legacy_section:
  "substring (toLowerCase page_far_sold_out) (max 0 (8 - 1500)) (min 2543 (8 + 1500))
     = ''<button>add to cart</button>'' @ replicate 1480 (CHR '' '')"
  unfolding far_lower by (simp add: substring_def)

lemma far_legacy_disabled: "\<not> hasDisabledButton_legacy (toLowerCase page_far_sold_out)"
  unfolding hasDisabledButton_legacy_def far3 far_len Let_def far_legacy_section
  by (simp add: test_def skips skips_legacy run_patterns_legacy pattern_eval char_eval)

lemma far_legacy_cart: "hasAddToCart_legacy (toLowerCase page_far_sold_out)"
  unfolding far_lower by (simp add: hasAddToCart_legacy_def)

lemma far_legacy_no_amazon:
  "\<not> includes_str (toLowerCase page_far_sold_out) ''see all buying options''"
  "\<not> includes_str (toLowerCase page_far_sold_out) ''other sellers on amazon''"
  unfolding far_lower by (simp_all add: skips)

lemma far_legacy: "parseStockStatus_legacy page_far_sold_out = in_stock"
  unfolding parseStockStatus_legacy_def Let_def
  by (simp only: far_legacy_no_amazon far_legacy_cart far_legacy_area far_legacy_oos
        far_legacy_low far1 far_legacy_disabled simp_thms if_True if_False option.case)

lemma far_status: "parseStockStatus page_far_sold_out = unavailable"
  by (simp add: parseStockStatus_def far1 far2)

text \<open>
  Claim C3, amended.  The current \<^verbatim>\<open>parseStockStatus\<close> tests the unavailability
  phrases on the whole document, with or without a purchase affordance: when the
  structured-data check gives no answer, a match of the pattern at any position of the
  page (after any prefix \<open>pre\<close>) makes the result \<open>unavailable\<close>.  The witness is a
  page whose phrase stands 2500 characters behind the button; the older copy, which
  scans 2000 characters around the first ``add to cart'', classifies it \<open>in_stock\<close>.
\<close>

theorem unavailability_scans_whole_document:
  assumes "checkStructuredData (pre @ suf) = None"
    and "run flags_i outOfStockPattern
           (length pre, (if pre = [] then None else Some (last pre)), suf, []) \<noteq> []"
  shows "parseStockStatus (pre @ suf) = unavailable"
proof -
  have "search_from flags_i outOfStockPattern 0 None (pre @ suf) \<noteq> None"
    using search_found [of flags_i outOfStockPattern 0 pre None suf] assms(2) by simp
  then have "test flags_i outOfStockPattern (pre @ suf)"
    by (simp add: test_def)
  with assms(1) show ?thesis
    by (simp add: parseStockStatus_def)
qed

theorem unavailability_scans_whole_document_witness:
  "page_far_sold_out
     = (''<button>Add to Cart</button>'' @ replicate 2500 (CHR '' '') @ ''<p>'') @ ''Sold out</p>''
   \<and> length (''<button>Add to Cart</button>'' @ replicate 2500 (CHR '' '') @ ''<p>'') = 2531
   \<and> parseStockStatus page_far_sold_out = unavailable
   \<and> parseStockStatus_legacy page_far_sold_out = in_stock"
proof -
  define pre where "pre = ''<button>Add to Cart</button>'' @ replicate 2500 (CHR '' '') @ ''<p>''"
  have split: "page_far_sold_out = pre @ ''Sold out</p>''"
    by (simp add: page_far_sold_out_def pre_def)
  have len: "length pre = 2531" by (simp add: pre_def)
  have lst: "(if pre = [] then None else Some (last pre)) = Some (CHR ''>'')"
    by (simp add: pre_def)
  have sd: "checkStructuredData (pre @ ''Sold out</p>'') = None"
    using far1 by (simp only: split)
  have hit: "run flags_i outOfStockPattern
           (length pre, (if pre = [] then None else Some (last pre)), ''Sold out</p>'', []) \<noteq> []"
    unfolding len lst
    by (simp add: run_patterns pattern_eval char_eval)
  from unavailability_scans_whole_document [OF sd hit] split len far_legacy show ?thesis
    by (simp add: pre_def)
qed

text \<open>
  The claim as stated fails on that page: an affordance exists, the phrase lies outside
  the window of 2000 characters around it, and the result is \<open>unavailable\<close>.
\<close>

theorem unavailability_scope_counterexample:
  "hasAddToCart (toLowerCase page_far_sold_out)
   \<and> indexOf (toLowerCase page_far_sold_out) ''add to cart'' = 8
   \<and> \<not> test flags_i outOfStockPattern (substring page_far_sold_out (8 - 2000) (8 + 2000))
   \<and> parseStockStatus page_far_sold_out = unavailable"
  using far3 far4 far6 far_status by (simp only: far5 simp_thms)


lemma dis_lower: "toLowerCase page_far_disabled =
     ''<button disabled>notify me</button>'' @ replicate 1600 (CHR '' '') @ ''<a>buy now</a>''"
  by (simp add: page_far_disabled_def toLowerCase_def char_eval)

lemma dis_len: "int (length (toLowerCase page_far_disabled)) = 1649"
  by (simp add: page_far_disabled_def toLowerCase_def)

lemma dis_no_cart: "indexOf (toLowerCase page_far_disabled) ''add to cart'' = - 1"
  unfolding dis_lower by (simp add: indexOf_def skips)

lemma dis_buy_now: "indexOf (toLowerCase page_far_disabled) ''buy now'' = 1638"
  unfolding dis_lower by (simp add: indexOf_def skips)

lemma dis_has: "hasAddToCart (toLowerCase page_far_disabled)"
  unfolding dis_lower by (simp add: hasAddToCart_def skips)

lemma dis_has_legacy: "hasAddToCart_legacy (toLowerCase page_far_disabled)"
  unfolding dis_lower by (simp add: hasAddToCart_legacy_def skips)

lemma dis_section: "buttonSection (toLowerCase page_far_disabled)
     = ''<button disabled>notify me</button>'' @ replicate 1464 (CHR '' '')"
  unfolding buttonSection_def dis_no_cart dis_len Let_def
  by (simp add: dis_lower substring_def)

lemma dis_flag: "hasDisabledButton (toLowerCase page_far_disabled)"
  unfolding hasDisabledButton_def dis_section
  by (simp add: dis_has test_def run_patterns pattern_eval char_eval)

lemma dis_sd: "checkStructuredData page_far_disabled = None"
  by (simp add: page_far_disabled_def checkStructuredData_def exec_def
        skips run_patterns pattern_eval char_eval)

lemma dis_oos: "\<not> test flags_i outOfStockPattern page_far_disabled"
  by (simp add: page_far_disabled_def test_def skips run_patterns pattern_eval char_eval)

lemma dis_low: "\<not> test flags_i lowStockPattern page_far_disabled"
  by (simp add: page_far_disabled_def test_def skips run_patterns pattern_eval char_eval)

lemma dis_legacy_oos:
  "\<not> list_ex (\<lambda>pattern. test flags_i pattern
       (productArea page_far_disabled (toLowerCase page_far_disabled))) outOfStockPatterns"
  unfolding productArea_def dis_no_cart dis_len Let_def
  by (simp add: page_far_disabled_def substring_def outOfStockPatterns_def test_def skips
        skips_legacy run_patterns_legacy pattern_eval char_eval)

lemma dis_legacy_low:
  "\<not> list_ex (\<lambda>pattern. test flags_i pattern page_far_disabled) lowStockPatterns"
  by (simp add: lowStockPatterns_def page_far_disabled_def test_def skips skips_legacy
        run_patterns_legacy pattern_eval char_eval)

lemma dis_legacy_flag: "\<not> hasDisabledButton_legacy (toLowerCase page_far_disabled)"
  unfolding hasDisabledButton_legacy_def dis_no_cart Let_def by simp

lemma dis_no_amazon:
  "\<not> includes_str (toLowerCase page_far_disabled) ''see all buying options''"
  "\<not> includes_str (toLowerCase page_far_disabled) ''other sellers on amazon''"
  unfolding dis_lower by (simp_all add: skips)

lemma dis_legacy: "parseStockStatus_legacy page_far_disabled = in_stock"
  unfolding parseStockStatus_legacy_def Let_def
  by (simp only: dis_no_amazon dis_has_legacy dis_legacy_oos dis_legacy_low dis_sd
        dis_legacy_flag simp_thms if_True if_False option.case)

text \<open>
  Claim C8 says that a disabled marker outside the window of 1500 characters around the
  first affordance phrase never sets the disabled flag.  The window is always taken
  around \<^verbatim>\<open>indexOf('add to cart')\<close>; when the affordance is another phrase that
  index is \<open>-1\<close> and the window is the first 1499 characters of the page.  Here the
  affordance ``buy now'' stands at index 1638, the disabled button at the top of the
  page sets the flag, and the result is \<open>unavailable\<close>; the older copy tests the index
  against \<open>-1\<close> and returns \<open>in_stock\<close>.
\<close>

theorem disabled_window_misplaced:
  "indexOf (toLowerCase page_far_disabled) ''add to cart'' = - 1
   \<and> indexOf (toLowerCase page_far_disabled) ''buy now'' = 1638
   \<and> buttonSection (toLowerCase page_far_disabled)
       = ''<button disabled>notify me</button>'' @ replicate 1464 (CHR '' '')
   \<and> hasDisabledButton (toLowerCase page_far_disabled)
   \<and> parseStockStatus page_far_disabled = unavailable
   \<and> parseStockStatus_legacy page_far_disabled = in_stock"
proof -
  have "parseStockStatus page_far_disabled = unavailable"
    by (simp add: parseStockStatus_def dis_sd dis_oos dis_low dis_has dis_flag)
  with dis_no_cart dis_buy_now dis_section dis_flag dis_legacy show ?thesis
    by (simp only: simp_thms)
qed

section \<open>A page with two structured-data blocks\<close>










end
